theory Spec2Isabelle
  imports Complex_Main
begin

section \<open>Python values used by \<^verbatim>\<open>src/app.py\<close>\<close>

text \<open>
  Coordinates are Python floats. The program only compares them (it never adds or
  multiplies them), and comparing two finite doubles agrees with comparing the real
  numbers they denote, so a finite float is a \<^typ>\<open>real\<close>. The three special values
  are kept, because a centroid of an empty geometry is NaN and a failed reprojection
  yields infinities; every comparison with NaN is false.
\<close>

datatype pyfloat = Fin real | PosInf | NegInf | NaN

fun f_le :: "pyfloat \<Rightarrow> pyfloat \<Rightarrow> bool" where
  "f_le NaN b = False"
| "f_le a NaN = False"
| "f_le NegInf b = True"
| "f_le a PosInf = True"
| "f_le (Fin a) (Fin b) = (a \<le> b)"
| "f_le a b = False"

definition f_gt :: "pyfloat \<Rightarrow> pyfloat \<Rightarrow> bool" where
  "f_gt a b = (f_le b a \<and> \<not> f_le a b)"

fun f_abs :: "pyfloat \<Rightarrow> pyfloat" where
  "f_abs (Fin a) = Fin \<bar>a\<bar>"
| "f_abs PosInf = PosInf"
| "f_abs NegInf = PosInf"
| "f_abs NaN = NaN"

text \<open>The exceptions that occur in the modelled code, as values.\<close>

datatype py_error =
    FileNotFoundError | ParserError | KeyError | IndexError
  | ZeroDivisionError | AttributeError | LibraryError

text \<open>\<^verbatim>\<open>str(n)\<close> of a non-negative integer, for the f-strings.\<close>

definition digit_char :: "nat \<Rightarrow> char" where
  "digit_char d = char_of (48 + d)"

function str_nat :: "nat \<Rightarrow> string" where
  "str_nat n = (if n < 10 then [digit_char n] else str_nat (n div 10) @ [digit_char (n mod 10)])"
  by pat_completeness auto
termination
  by (relation "measure (\<lambda>n. n)") auto

declare str_nat.simps [simp del]

text \<open>
  \<^verbatim>\<open>dict(zip(keys, values))\<close>: pairs are stored from left to right, a later pair
  replacing an earlier one with the same key.
\<close>

definition py_dict :: "('k \<times> 'v) list \<Rightarrow> ('k \<rightharpoonup> 'v)" where
  "py_dict kvs = foldl (\<lambda>m (k, v). m(k \<mapsto> v)) Map.empty kvs"

section \<open>The reference code table (\<^verbatim>\<open>load_classification_codes\<close>, lines 36-53)\<close>

text \<open>
  The frame that \<^verbatim>\<open>pd.read_csv\<close> returns: its columns in file order, each a name
  and its cells. The code column is read through \<^verbatim>\<open>astype(str)\<close>, so cells are strings.
  The argument of the loader is the outcome of \<^verbatim>\<open>pd.read_csv\<close>: the frame, or the
  exception it raised.
\<close>

type_synonym csv_frame = "(string \<times> string list) list"

definition frame_column :: "csv_frame \<Rightarrow> string \<Rightarrow> py_error + string list" where
  "frame_column df name = (case map_of df name of None \<Rightarrow> Inl KeyError | Some cells \<Rightarrow> Inr cells)"

text \<open>Lines 41-46: which columns hold the code and the description.\<close>

definition code_columns :: "csv_frame \<Rightarrow> py_error + (string \<times> string)" where
  "code_columns df =
     (let cols = map fst df in
      if ''use_code'' \<in> set cols then Inr (''use_code'', ''Description'')
      else if ''Code'' \<in> set cols then Inr (''Code'', ''Description'')
      else (case cols of
              c0 # c1 # rest \<Rightarrow> Inr (c0, c1)
            | _ \<Rightarrow> Inl IndexError))"

text \<open>The body of the \<^verbatim>\<open>try\<close> block, lines 39-50.\<close>

definition load_codes_body :: "py_error + csv_frame \<Rightarrow> py_error + (string \<rightharpoonup> string)" where
  "load_codes_body read_csv =
     (case read_csv of
        Inl e \<Rightarrow> Inl e
      | Inr codes_df \<Rightarrow>
          (case code_columns codes_df of
             Inl e \<Rightarrow> Inl e
           | Inr (code_col, desc_col) \<Rightarrow>
               (case frame_column codes_df code_col of
                  Inl e \<Rightarrow> Inl e
                | Inr ks \<Rightarrow>
                    (case frame_column codes_df desc_col of
                       Inl e \<Rightarrow> Inl e
                     | Inr vs \<Rightarrow> Inr (py_dict (zip ks vs))))))"

text \<open>Lines 38-53: any exception of the body is caught and the empty dict returned.\<close>

definition load_classification_codes :: "py_error + csv_frame \<Rightarrow> (string \<rightharpoonup> string)" where
  "load_classification_codes read_csv =
     (case load_codes_body read_csv of Inl e \<Rightarrow> Map.empty | Inr codes_dict \<Rightarrow> codes_dict)"

section \<open>The layers\<close>

text \<open>
  Both layers carry the column \<^verbatim>\<open>LOC_ID\<close>; its values are modelled as the strings
  that \<^verbatim>\<open>astype(str)\<close> (lines 163-164) and \<^verbatim>\<open>str(...)\<close> (lines 200, 254) produce.
  A parcel row has a geometry, which may be missing (\<^verbatim>\<open>None\<close>). An assessment row has
  its use code, read through \<^verbatim>\<open>astype(str)\<close> (line 122), and the two columns that the
  code reads with \<^verbatim>\<open>.get\<close>, where \<open>None\<close> stands for an absent column.
\<close>

record keyed_row =
  LOC_ID :: string

record 'g parcel_row = keyed_row +
  geometry :: "'g option"

record assessment_row = keyed_row +
  PROP_ID :: "string option"
  SITE_ADDR :: "string option"
  USE_CODE :: string

text \<open>A row of the merged frame \<^verbatim>\<open>all_parcels_gdf\<close>: the parcel's columns and the assessment's.\<close>

type_synonym 'g joined_row = "'g parcel_row \<times> assessment_row"

text \<open>
  The geometry library (shapely, geopandas, pyproj) is outside the repository; its
  operations are parameters. \<open>None\<close> is a raised exception.
  \<^item> \<open>centroid_xy g\<close>: \<^verbatim>\<open>g.centroid.x, g.centroid.y\<close> (lines 209-212);
  \<^item> \<open>buffer g d\<close>: \<^verbatim>\<open>g.buffer(d)\<close> (line 249);
  \<^item> \<open>intersects g b\<close>: one entry of \<^verbatim>\<open>all_parcels_gdf.intersects(b)\<close> (line 250);
  \<^item> \<open>to_crs c (x, y)\<close>: the point \<^verbatim>\<open>Point(x, y)\<close> of a frame with CRS \<open>c\<close> after
    \<^verbatim>\<open>to_crs('EPSG:4326')\<close>, as its \<open>x\<close> and \<open>y\<close> (lines 224-229).
\<close>

record ('g, 'crs) geo_ops =
  centroid_xy :: "'g \<Rightarrow> (pyfloat \<times> pyfloat) option"
  buffer :: "'g \<Rightarrow> real \<Rightarrow> 'g option"
  intersects :: "'g \<Rightarrow> 'g \<Rightarrow> bool option"
  to_crs :: "'crs \<Rightarrow> pyfloat \<times> pyfloat \<Rightarrow> (pyfloat \<times> pyfloat) option"

text \<open>The parcel layer as read: its rows and its coordinate reference system, if any.\<close>

record ('g, 'crs) parcels_frame =
  parcel_rows :: "'g parcel_row list"
  crs :: "'crs option"

section \<open>Use codes and the join\<close>

text \<open>Line 122: \<^verbatim>\<open>assessment_df['USE_CODE'].astype(str).str[:3]\<close>.\<close>

definition truncate_use_codes :: "assessment_row list \<Rightarrow> assessment_row list" where
  "truncate_use_codes df = map (\<lambda>r. r\<lparr>USE_CODE := take 3 (USE_CODE r)\<rparr>) df"

text \<open>
  Line 167: \<^verbatim>\<open>parcels_gdf.merge(assessment_df, on='LOC_ID', how='inner')\<close>. The inner
  join keeps the order of the left keys; a parcel is paired with every assessment row of
  its key, in the order of the assessment frame.
\<close>

definition merge_inner :: "'g parcel_row list \<Rightarrow> assessment_row list \<Rightarrow> 'g joined_row list" where
  "merge_inner parcels assessment =
     concat (map (\<lambda>p. map (Pair p) (filter (\<lambda>a. LOC_ID a = LOC_ID p) assessment)) parcels)"

text \<open>Line 170: the use codes of the merged frame, cut to three characters again.\<close>

definition truncate_joined_codes :: "'g joined_row list \<Rightarrow> 'g joined_row list" where
  "truncate_joined_codes rows = map (\<lambda>(p, a). (p, a\<lparr>USE_CODE := take 3 (USE_CODE a)\<rparr>)) rows"

definition build_all_parcels :: "'g parcel_row list \<Rightarrow> assessment_row list \<Rightarrow> 'g joined_row list" where
  "build_all_parcels parcels assessment = truncate_joined_codes (merge_inner parcels assessment)"

section \<open>\<^verbatim>\<open>collections.Counter\<close>\<close>

text \<open>
  A \<^verbatim>\<open>Counter\<close> is a dict, so it keeps its keys in the order of their first insertion:
  an association list. Counting an element increments its entry or appends a new one.
\<close>

definition counter_incr :: "('a \<times> nat) list \<Rightarrow> 'a \<Rightarrow> ('a \<times> nat) list" where
  "counter_incr c x =
     (if x \<in> fst ` set c then map (\<lambda>(k, n). if k = x then (k, n + 1) else (k, n)) c
      else c @ [(x, 1)])"

definition Counter :: "'a list \<Rightarrow> ('a \<times> nat) list" where
  "Counter xs = foldl counter_incr [] xs"

text \<open>
  \<^verbatim>\<open>most_common(1)\<close> is \<^verbatim>\<open>heapq.nlargest(1, items, key=itemgetter(1))\<close>, which for
  \<open>n = 1\<close> is \<^verbatim>\<open>max(items, key=...)\<close>: the running maximum is replaced only by a
  strictly greater entry, so the first of several maximal entries is returned.
\<close>

definition max_step :: "'a \<times> nat \<Rightarrow> 'a \<times> nat \<Rightarrow> 'a \<times> nat" where
  "max_step best item = (if snd item > snd best then item else best)"

definition most_common_1 :: "('a \<times> nat) list \<Rightarrow> ('a \<times> nat) list" where
  "most_common_1 c = (case c of [] \<Rightarrow> [] | item # items \<Rightarrow> [foldl max_step item items])"

section \<open>The results\<close>

text \<open>
  One entry of \<^verbatim>\<open>results\<close> (lines 278-290). The confidence is the quotient of two
  Python ints (line 271); it is modelled as the exact quotient, which Python rounds to
  the nearest double.
\<close>

record suggestion =
  id_key :: string
  prop_id :: string
  loc_id :: string
  address :: string
  current_code :: string
  suggested_code :: string
  confidence :: real
  description :: string
  lat :: pyfloat
  lng :: pyfloat
  nearby_count :: nat

text \<open>The global \<^verbatim>\<open>processing_progress\<close> (lines 29-34).\<close>

record progress =
  progress_current :: nat
  progress_total :: nat
  progress_status :: string
  progress_message :: string

definition processing_progress :: progress where
  "processing_progress =
     \<lparr>progress_current = 0, progress_total = 0, progress_status = ''idle'', progress_message = []\<rparr>"

text \<open>The dict that \<^verbatim>\<open>analyze_gdb\<close> returns (lines 143-152).\<close>

record analysis_result =
  success :: bool
  total_properties :: nat
  non_matching_count :: nat
  analyzed_count :: nat
  high_confidence_count :: nat
  properties :: "suggestion list"
  match_percentage :: real
  assessment_data :: "assessment_row list"

section \<open>One property (the body of the inner \<^verbatim>\<open>try\<close>, lines 199-290)\<close>

text \<open>Lines 200-205: the first row of the merged frame with the property's key.\<close>

definition find_property_geom :: "'g joined_row list \<Rightarrow> string \<Rightarrow> 'g joined_row option" where
  "find_property_geom all_parcels loc =
     (case filter (\<lambda>r. LOC_ID (fst r) = loc) all_parcels of
        [] \<Rightarrow> None
      | r # rest \<Rightarrow> Some r)"

text \<open>
  Lines 215-238: the centroid as \<open>(lat, lng)\<close>, or \<open>None\<close> where the code continues
  with the next property (no CRS, or the reprojection raised).
\<close>

definition normalize_centroid ::
  "('g, 'crs) geo_ops \<Rightarrow> 'crs option \<Rightarrow> pyfloat \<Rightarrow> pyfloat \<Rightarrow> (pyfloat \<times> pyfloat) option" where
  "normalize_centroid G c x y =
     (if f_gt (f_abs x) (Fin 1000) \<or> f_gt (f_abs y) (Fin 1000) then
        (case c of
           None \<Rightarrow> None
         | Some src \<Rightarrow>
             (case to_crs G src (x, y) of
                None \<Rightarrow> None
              | Some (tx, ty) \<Rightarrow> Some (ty, tx)))
      else Some (y, x))"

text \<open>Line 241: \<^verbatim>\<open>41.0 <= lat <= 43.0 and -74.0 <= lng <= -69.0\<close>.\<close>

definition in_massachusetts :: "pyfloat \<Rightarrow> pyfloat \<Rightarrow> bool" where
  "in_massachusetts latitude longitude =
     (f_le (Fin 41) latitude \<and> f_le latitude (Fin 43) \<and>
      f_le (Fin (- 74)) longitude \<and> f_le longitude (Fin (- 69)))"

text \<open>Line 250: the mask; a row without geometry intersects nothing.\<close>

definition intersects_mask ::
  "('g, 'crs) geo_ops \<Rightarrow> 'g joined_row list \<Rightarrow> 'g \<Rightarrow> bool list option" where
  "intersects_mask G all_parcels buf =
     those (map (\<lambda>r. case geometry (fst r) of None \<Rightarrow> Some False | Some g \<Rightarrow> intersects G g buf)
                all_parcels)"

text \<open>Lines 249-254: the rows that intersect the buffer, without those of the property's key.\<close>

definition nearby_parcels ::
  "('g, 'crs) geo_ops \<Rightarrow> 'g joined_row list \<Rightarrow> 'g \<Rightarrow> string \<Rightarrow> py_error + 'g joined_row list" where
  "nearby_parcels G all_parcels g loc =
     (case buffer G g 100 of
        None \<Rightarrow> Inl LibraryError
      | Some buffer_geom \<Rightarrow>
          (case intersects_mask G all_parcels buffer_geom of
             None \<Rightarrow> Inl LibraryError
           | Some nearby_mask \<Rightarrow>
               Inr (filter (\<lambda>r. LOC_ID (fst r) \<noteq> loc)
                      (map fst (filter snd (zip all_parcels nearby_mask))))))"

text \<open>Line 260.\<close>

definition nearby_valid_codes :: "string set \<Rightarrow> 'g joined_row list \<Rightarrow> 'g joined_row list" where
  "nearby_valid_codes valid_codes nearby = filter (\<lambda>r. USE_CODE (snd r) \<in> valid_codes) nearby"

text \<open>
  Lines 199-290. The outcome is \<open>Inl e\<close> when the body raises (caught at line 292),
  \<open>Inr None\<close> when it reaches a \<^verbatim>\<open>continue\<close>, and \<open>Inr (Some s)\<close> when it appends
  \<open>s\<close> to \<^verbatim>\<open>results\<close>. The list \<^verbatim>\<open>results\<close> is read for the record's \<^verbatim>\<open>id\<close>.
\<close>

definition property_body ::
  "('g, 'crs) geo_ops \<Rightarrow> 'crs option \<Rightarrow> 'g joined_row list \<Rightarrow> (string \<rightharpoonup> string) \<Rightarrow> string set \<Rightarrow>
   suggestion list \<Rightarrow> assessment_row \<Rightarrow> py_error + suggestion option" where
  "property_body G c all_parcels codes_dict valid_codes results property_row =
     (case find_property_geom all_parcels (LOC_ID property_row) of
        None \<Rightarrow> Inr None
      | Some property_geom \<Rightarrow>
          (case geometry (fst property_geom) of
             None \<Rightarrow> Inr None
           | Some g \<Rightarrow>
               (case centroid_xy G g of
                  None \<Rightarrow> Inl LibraryError
                | Some (x, y) \<Rightarrow>
                    (case normalize_centroid G c x y of
                       None \<Rightarrow> Inr None
                     | Some (latitude, longitude) \<Rightarrow>
                         if \<not> in_massachusetts latitude longitude then Inr None
                         else
                           (case nearby_parcels G all_parcels g (LOC_ID property_row) of
                              Inl e \<Rightarrow> Inl e
                            | Inr nearby \<Rightarrow>
                                if length nearby = 0 then Inr None
                                else
                                  (let valid = nearby_valid_codes valid_codes nearby in
                                   if length valid = 0 then Inr None
                                   else
                                     (case most_common_1 (Counter (map (\<lambda>r. USE_CODE (snd r)) valid)) of
                                        [] \<Rightarrow> Inr None
                                      | (code, votes) # others \<Rightarrow>
                                          if code \<notin> valid_codes then Inr None
                                          else Inr (Some
                                            \<lparr>id_key = ''prop_'' @ str_nat (length results),
                                             prop_id = (case PROP_ID property_row of None \<Rightarrow> [] | Some v \<Rightarrow> v),
                                             loc_id = LOC_ID property_row,
                                             address = (case SITE_ADDR property_row of
                                                          None \<Rightarrow> ''Unknown Address'' | Some v \<Rightarrow> v),
                                             current_code = USE_CODE property_row,
                                             suggested_code = code,
                                             confidence = real votes / real (length valid),
                                             description = (case codes_dict code of
                                                              None \<Rightarrow> ''Unknown'' | Some d \<Rightarrow> d),
                                             lat = latitude,
                                             lng = longitude,
                                             nearby_count = length nearby\<rparr>))))))))"

section \<open>The batch (\<^verbatim>\<open>perform_spatial_analysis\<close>, lines 159-305)\<close>

text \<open>
  The loop of lines 188-294 over the rows of \<^verbatim>\<open>non_matching_sample\<close>, with the body of
  the inner \<^verbatim>\<open>try\<close> as \<open>body\<close>. It returns \<^verbatim>\<open>results\<close> and the successive values of
  the global progress, one per assignment. An exception of the body is caught (line 292)
  and the loop goes on.
\<close>

fun analysis_loop ::
  "(suggestion list \<Rightarrow> assessment_row \<Rightarrow> py_error + suggestion option) \<Rightarrow> nat \<Rightarrow> nat \<Rightarrow>
   assessment_row list \<Rightarrow> suggestion list \<Rightarrow> progress \<Rightarrow> suggestion list \<times> progress list" where
  "analysis_loop body total_to_process count [] results pr = (results, [])"
| "analysis_loop body total_to_process count (property_row # rest) results pr =
     (let pr1 = pr\<lparr>progress_current := count\<rparr>;
          pr2 = pr1\<lparr>progress_message :=
                  ''Analyzing property '' @ str_nat count @ '' of '' @ str_nat total_to_process\<rparr>;
          results' = (case body results property_row of
                        Inl e \<Rightarrow> results
                      | Inr None \<Rightarrow> results
                      | Inr (Some s) \<Rightarrow> results @ [s]);
          (final, trace) = analysis_loop body total_to_process (count + 1) rest results' pr2
      in (final, pr1 # pr2 # trace))"

text \<open>
  Line 174 formats \<^verbatim>\<open>parcels_gdf.geometry.iloc[0].centroid\<close> when the frame has a row;
  with a missing first geometry this raises \<^verbatim>\<open>AttributeError\<close>.
\<close>

definition debug_sample_coordinates :: "'g parcel_row list \<Rightarrow> py_error + unit" where
  "debug_sample_coordinates parcels =
     (case parcels of
        [] \<Rightarrow> Inr ()
      | p # rest \<Rightarrow> (case geometry p of None \<Rightarrow> Inl AttributeError | Some g \<Rightarrow> Inr ()))"

text \<open>
  Lines 161-305. The result is \<^verbatim>\<open>results\<close> and the successive values written to the
  global progress, starting from its value \<open>pr\<close> at the call. An exception outside the
  loop is caught at line 303: the function returns the empty list and the progress keeps
  the value it had.
\<close>

definition perform_spatial_analysis ::
  "('g, 'crs) geo_ops \<Rightarrow> ('g, 'crs) parcels_frame \<Rightarrow> assessment_row list \<Rightarrow> assessment_row list \<Rightarrow>
   (string \<rightharpoonup> string) \<Rightarrow> string set \<Rightarrow> progress \<Rightarrow> suggestion list \<times> progress list" where
  "perform_spatial_analysis G parcels_gdf assessment_df non_matching_sample codes_dict valid_codes pr =
     (let all_parcels_gdf = build_all_parcels (parcel_rows parcels_gdf) assessment_df in
      case debug_sample_coordinates (parcel_rows parcels_gdf) of
        Inl e \<Rightarrow> ([], [])
      | Inr u \<Rightarrow>
          (let total_to_process = length non_matching_sample;
               pr1 = pr\<lparr>progress_total := total_to_process\<rparr>;
               pr2 = pr1\<lparr>progress_status := ''processing''\<rparr>;
               (results, trace) =
                  analysis_loop (property_body G (crs parcels_gdf) all_parcels_gdf codes_dict valid_codes)
                    total_to_process 1 non_matching_sample [] pr2;
               pr3 = (last (pr2 # trace))\<lparr>progress_status := ''complete''\<rparr>;
               pr4 = pr3\<lparr>progress_message :=
                       ''Analysis complete! Found '' @ str_nat (length results) @
                       '' properties with spatial suggestions.''\<rparr>
           in (results, pr1 # pr2 # trace @ [pr3, pr4])))"

section \<open>The run (\<^verbatim>\<open>analyze_gdb\<close>, lines 82-157)\<close>

text \<open>
  Lines 86-87 and 121-152, after the two layers were chosen and read (lines 89-119):
  \<open>read_csv\<close> is the outcome of reading the code table, \<open>parcels_gdf\<close> the parcel layer,
  \<open>assessment_layer\<close> the assessment layer, \<open>pr\<close> the global progress at the call. The
  result is the returned dict, or the exception that lines 154-157 raise again, and
  the values written to the global progress. Line 150 divides two Python ints.
\<close>

definition analyze_gdb ::
  "('g, 'crs) geo_ops \<Rightarrow> py_error + csv_frame \<Rightarrow> ('g, 'crs) parcels_frame \<Rightarrow> assessment_row list \<Rightarrow>
   progress \<Rightarrow> (py_error + analysis_result) \<times> progress list" where
  "analyze_gdb G read_csv parcels_gdf assessment_layer pr =
     (let codes_dict = load_classification_codes read_csv;
          valid_codes = dom codes_dict;
          assessment_df = truncate_use_codes assessment_layer;
          total_properties = length assessment_df;
          non_matching_df = filter (\<lambda>r. USE_CODE r \<notin> valid_codes) assessment_df;
          non_matching_count = length non_matching_df;
          (sample_properties, trace) =
             (if non_matching_count > 0
              then perform_spatial_analysis G parcels_gdf assessment_df non_matching_df
                     codes_dict valid_codes pr
              else ([], []));
          high_confidence_count = length (filter (\<lambda>p. confidence p > 0.7) sample_properties)
      in (if total_properties = 0 then Inl ZeroDivisionError
          else Inr
            \<lparr>success = True,
             total_properties = total_properties,
             non_matching_count = non_matching_count,
             analyzed_count = length sample_properties,
             high_confidence_count = high_confidence_count,
             properties = sample_properties,
             match_percentage =
               (real_of_int (int total_properties - int non_matching_count) / real total_properties) * 100,
             assessment_data = assessment_df\<rparr>,
          trace))"

section \<open>The plurality rule, from the specification\<close>

text \<open>
  The specification's rule, tallied independently of \<^const>\<open>Counter\<close>: walking the codes in
  their iteration order, the first one that no code outnumbers.
\<close>

definition plurality_first :: "'a list \<Rightarrow> 'a option" where
  "plurality_first codes =
     find (\<lambda>c. \<forall>d \<in> set codes. count_list codes d \<le> count_list codes c) codes"

text \<open>The keys of a \<^const>\<open>Counter\<close>: the distinct elements in the order of their first occurrence.\<close>

definition first_seen :: "'a list \<Rightarrow> 'a list" where
  "first_seen xs = rev (remdups (rev xs))"

section \<open>The neighbours of a property\<close>

text \<open>
  What lines 200-205 and 249-254 compute for a location key: the geometry of the first
  merged row of that key, and from it the rows in its buffer without the key's own rows.
  \<open>None\<close> when there is no such row, no geometry, or the library raised.
\<close>

definition property_neighbors ::
  "('g, 'crs) geo_ops \<Rightarrow> 'g joined_row list \<Rightarrow> string \<Rightarrow> 'g joined_row list option" where
  "property_neighbors G all_parcels loc =
     (case find_property_geom all_parcels loc of
        None \<Rightarrow> None
      | Some property_geom \<Rightarrow>
          (case geometry (fst property_geom) of
             None \<Rightarrow> None
           | Some g \<Rightarrow>
               (case nearby_parcels G all_parcels g loc of
                  Inl e \<Rightarrow> None
                | Inr nearby \<Rightarrow> Some nearby)))"

section \<open>An example town\<close>

text \<open>
  Parcels are discs in a projected frame (metres); a buffer widens the disc, two discs
  intersect when their centres are no further apart than the sum of their radii, and the
  reprojection is a linear map that sends \<open>(230000, 900000)\<close> to longitude \<open>-71\<close>,
  latitude \<open>42\<close>. A corrupt geometry makes the library raise.
\<close>

datatype disc_geom = Disc real real real | Corrupt

definition disc_ops :: "(disc_geom, string) geo_ops" where
  "disc_ops =
     \<lparr>centroid_xy = (\<lambda>g. case g of Disc x y r \<Rightarrow> Some (Fin x, Fin y) | Corrupt \<Rightarrow> None),
      buffer = (\<lambda>g d. case g of Disc x y r \<Rightarrow> Some (Disc x y (r + d)) | Corrupt \<Rightarrow> None),
      intersects = (\<lambda>g b. case g of
                       Disc x y r \<Rightarrow>
                         (case b of
                            Disc x' y' r' \<Rightarrow>
                              Some ((x - x') * (x - x') + (y - y') * (y - y') \<le> (r + r') * (r + r'))
                          | Corrupt \<Rightarrow> None)
                     | Corrupt \<Rightarrow> Some False),
      to_crs = (\<lambda>src p. case p of
                   (Fin a, Fin b) \<Rightarrow> Some (Fin (a / 100000 - 733 / 10), Fin (b / 100000 + 33))
                 | _ \<Rightarrow> Some (PosInf, PosInf))\<rparr>"

definition town_parcels :: "(disc_geom, string) parcels_frame" where
  "town_parcels =
     \<lparr>parcel_rows =
        [\<lparr>LOC_ID = ''L1'', geometry = Some (Disc 230000 900000 10)\<rparr>,
         \<lparr>LOC_ID = ''L2'', geometry = Some (Disc 230050 900000 10)\<rparr>,
         \<lparr>LOC_ID = ''L3'', geometry = Some (Disc 230000 900050 10)\<rparr>,
         \<lparr>LOC_ID = ''L4'', geometry = Some (Disc 229950 900000 10)\<rparr>,
         \<lparr>LOC_ID = ''L5'', geometry = Some (Disc 230000 899950 10)\<rparr>,
         \<lparr>LOC_ID = ''L6'', geometry = Some (Disc 230030 900030 10)\<rparr>,
         \<lparr>LOC_ID = ''L7'', geometry = Some (Disc 240000 900000 10)\<rparr>,
         \<lparr>LOC_ID = ''L8'', geometry = Some Corrupt\<rparr>],
      crs = Some ''EPSG:26986''\<rparr>"

definition town_row :: "string \<Rightarrow> string \<Rightarrow> string \<Rightarrow> assessment_row" where
  "town_row loc pid code =
     \<lparr>LOC_ID = loc, PROP_ID = Some pid, SITE_ADDR = Some ''1 Main St'', USE_CODE = code\<rparr>"

definition town_assessment :: "assessment_row list" where
  "town_assessment =
     [town_row ''L1'' ''P1'' ''9990'',
      town_row ''L1'' ''P1b'' ''1010'',
      town_row ''L2'' ''P2'' ''102'',
      town_row ''L3'' ''P3'' ''101'',
      town_row ''L4'' ''P4'' ''101'',
      town_row ''L5'' ''P5'' ''102'',
      town_row ''L6'' ''P6'' ''998'',
      town_row ''L7'' ''P7'' ''101'',
      town_row ''L8'' ''P8'' ''997'',
      town_row ''L9'' ''P9'' ''996'']"

definition town_codes_csv :: "py_error + csv_frame" where
  "town_codes_csv =
     Inr [(''Code'', [''101'', ''102'']), (''Description'', [''Single Family'', ''Two Family''])]"

definition town_codes :: "string \<rightharpoonup> string" where
  "town_codes = [''101'' \<mapsto> ''Single Family'', ''102'' \<mapsto> ''Two Family'']"

definition town_non_matching :: "assessment_row list" where
  "town_non_matching =
     [town_row ''L1'' ''P1'' ''999'',
      town_row ''L6'' ''P6'' ''998'',
      town_row ''L8'' ''P8'' ''997'',
      town_row ''L9'' ''P9'' ''996'']"

definition town_suggestion_P1 :: suggestion where
  "town_suggestion_P1 =
     \<lparr>id_key = ''prop_0'', prop_id = ''P1'', loc_id = ''L1'', address = ''1 Main St'',
      current_code = ''999'', suggested_code = ''102'', confidence = 1 / 2,
      description = ''Two Family'', lat = Fin 42, lng = Fin (- 71), nearby_count = 5\<rparr>"

definition town_suggestion_P6 :: suggestion where
  "town_suggestion_P6 =
     \<lparr>id_key = ''prop_1'', prop_id = ''P6'', loc_id = ''L6'', address = ''1 Main St'',
      current_code = ''998'', suggested_code = ''101'', confidence = 3 / 5,
      description = ''Single Family'', lat = Fin (420003 / 10000), lng = Fin (- 709997 / 10000),
      nearby_count = 6\<rparr>"

section \<open>The progress after a run, and further example inputs\<close>

text \<open>The value of the global progress once the writes of a trace have happened.\<close>

definition final_progress :: "progress \<Rightarrow> progress list \<Rightarrow> progress" where
  "final_progress pr trace = last (pr # trace)"

text \<open>An assessment layer whose codes are all in the table.\<close>

definition town_matching_assessment :: "assessment_row list" where
  "town_matching_assessment =
     [town_row ''L2'' ''P2'' ''102'', town_row ''L3'' ''P3'' ''101'', town_row ''L4'' ''P4'' ''1010'']"

text \<open>
  A frame in geographic coordinates, with a parcel west of the region and one inside it,
  and a frame with a parcel that the reprojection sends east of the region.
\<close>

definition geographic_parcels :: "disc_geom joined_row list" where
  "geographic_parcels =
     [(\<lparr>LOC_ID = ''W1'', geometry = Some (Disc (- 75) 42 (1 / 1000))\<rparr>, town_row ''W1'' ''Q1'' ''999''),
      (\<lparr>LOC_ID = ''G1'', geometry = Some (Disc (- 71) 42 (1 / 1000))\<rparr>, town_row ''G1'' ''Q2'' ''999''),
      (\<lparr>LOC_ID = ''G2'', geometry = Some (Disc (- 71) 42 (1 / 1000))\<rparr>, town_row ''G2'' ''Q3'' ''101'')]"

definition geographic_suggestion :: suggestion where
  "geographic_suggestion =
     \<lparr>id_key = ''prop_0'', prop_id = ''Q2'', loc_id = ''G1'', address = ''1 Main St'',
      current_code = ''999'', suggested_code = ''101'', confidence = 1,
      description = ''Single Family'', lat = Fin 42, lng = Fin (- 71), nearby_count = 2\<rparr>"

definition far_east_parcels :: "disc_geom joined_row list" where
  "far_east_parcels =
     [(\<lparr>LOC_ID = ''E1'', geometry = Some (Disc 900000 900000 10)\<rparr>, town_row ''E1'' ''R1'' ''999''),
      (\<lparr>LOC_ID = ''E2'', geometry = Some (Disc 900010 900000 10)\<rparr>, town_row ''E2'' ''R2'' ''101'')]"

section \<open>The progress writes of a run, from the specification\<close>

text \<open>The f-strings of lines 191 and 298.\<close>

definition analyzing_message :: "nat \<Rightarrow> nat \<Rightarrow> string" where
  "analyzing_message count total_to_process =
     ''Analyzing property '' @ str_nat count @ '' of '' @ str_nat total_to_process"

definition complete_message :: "nat \<Rightarrow> string" where
  "complete_message found =
     ''Analysis complete! Found '' @ str_nat found @ '' properties with spatial suggestions.''"

text \<open>
  The specification's progress of a run over \<open>n\<close> records that finds \<open>k\<close> suggestions,
  written out as the successive states of the progress from its state \<open>pr\<close> at the start:
  the total, then the status \<^verbatim>\<open>processing\<close>; for the property number \<open>i\<close> from 1 to \<open>n\<close>
  the count \<open>i\<close>, then the message of \<open>i\<close>; at the end the status \<^verbatim>\<open>complete\<close>, then
  the closing message.
\<close>

definition expected_progress_trace :: "progress \<Rightarrow> nat \<Rightarrow> nat \<Rightarrow> progress list" where
  "expected_progress_trace pr n k =
     pr\<lparr>progress_total := n\<rparr> #
     pr\<lparr>progress_total := n, progress_status := ''processing''\<rparr> #
     concat (map (\<lambda>i.
        [pr\<lparr>progress_total := n, progress_status := ''processing'', progress_current := i,
            progress_message := (if i = 1 then progress_message pr else analyzing_message (i - 1) n)\<rparr>,
         pr\<lparr>progress_total := n, progress_status := ''processing'', progress_current := i,
            progress_message := analyzing_message i n\<rparr>]) [1 ..< n + 1]) @
     [pr\<lparr>progress_total := n, progress_status := ''complete'', progress_current := n,
         progress_message := analyzing_message n n\<rparr>,
      pr\<lparr>progress_total := n, progress_status := ''complete'', progress_current := n,
         progress_message := complete_message k\<rparr>]"

text \<open>The example town with a first parcel row that has no geometry.\<close>

definition town_parcels_first_missing :: "(disc_geom, string) parcels_frame" where
  "town_parcels_first_missing =
     town_parcels\<lparr>parcel_rows := \<lparr>LOC_ID = ''L0'', geometry = None\<rparr> # parcel_rows town_parcels\<rparr>"

section \<open>Lemmas: the tally and its maximum\<close>

lemma first_seen_snoc:
  "first_seen (xs @ [x]) = (if x \<in> set xs then first_seen xs else first_seen xs @ [x])"
  by (simp add: first_seen_def)

lemma set_first_seen: "set (first_seen xs) = set xs"
  by (simp add: first_seen_def)

lemma distinct_first_seen: "distinct (first_seen xs)"
  by (simp add: first_seen_def)

lemma count_list_snoc: "count_list (xs @ [x]) k = count_list xs k + (if k = x then 1 else 0)"
  by (induction xs) auto

lemma Counter_snoc: "Counter (xs @ [x]) = counter_incr (Counter xs) x"
  by (simp add: Counter_def)

lemma Counter_tally: "Counter xs = map (\<lambda>k. (k, count_list xs k)) (first_seen xs)"
proof (induction xs rule: rev_induct)
  case Nil
  show ?case by (simp add: Counter_def first_seen_def)
next
  case (snoc x xs)
  show ?case
  proof (cases "x \<in> set xs")
    case True
    then have "x \<in> fst ` set (Counter xs)"
      by (simp add: snoc.IH image_image set_first_seen)
    then show ?thesis
      using True by (simp add: Counter_snoc counter_incr_def snoc.IH first_seen_snoc count_list_snoc)
  next
    case False
    then have "x \<notin> fst ` set (Counter xs)"
      by (simp add: snoc.IH image_image set_first_seen)
    moreover have "count_list xs x = 0" using False by (simp add: count_list_0_iff)
    moreover have "\<forall>k \<in> set (first_seen xs). x \<noteq> k" using False by (auto simp: set_first_seen)
    ultimately show ?thesis
      using False by (simp add: Counter_snoc counter_incr_def snoc.IH first_seen_snoc count_list_snoc)
  qed
qed

lemma foldl_max_step:
  "\<exists>ys zs. item # items = ys @ foldl max_step item items # zs \<and>
     (\<forall>y \<in> set ys. snd y < snd (foldl max_step item items)) \<and>
     (\<forall>z \<in> set zs. snd z \<le> snd (foldl max_step item items))"
proof (induction items rule: rev_induct)
  case Nil
  show ?case by (rule exI[of _ "[]"], rule exI[of _ "[]"]) simp
next
  case (snoc x xs)
  then obtain ys zs where split: "item # xs = ys @ foldl max_step item xs # zs"
    and before: "\<forall>y \<in> set ys. snd y < snd (foldl max_step item xs)"
    and after: "\<forall>z \<in> set zs. snd z \<le> snd (foldl max_step item xs)"
    by blast
  let ?b = "foldl max_step item xs"
  show ?case
  proof (cases "snd x > snd ?b")
    case True
    then have new: "foldl max_step item (xs @ [x]) = x" by (simp add: max_step_def)
    have "item # xs @ [x] = (item # xs) @ x # []" by simp
    moreover have "\<forall>y \<in> set (item # xs). snd y < snd x"
    proof
      fix y assume "y \<in> set (item # xs)"
      then have "y \<in> set ys \<or> y = ?b \<or> y \<in> set zs" by (subst (asm) split) auto
      then show "snd y < snd x" using before after True by force
    qed
    ultimately show ?thesis unfolding new by (metis empty_iff list.set(1))
  next
    case False
    then have old: "foldl max_step item (xs @ [x]) = ?b" by (simp add: max_step_def)
    have "item # xs @ [x] = ys @ ?b # (zs @ [x])" using split by simp
    moreover have "\<forall>z \<in> set (zs @ [x]). snd z \<le> snd ?b" using after False by auto
    ultimately show ?thesis unfolding old using before by blast
  qed
qed

lemma first_seen_split:
  "first_seen xs = ks1 @ k # ks2 \<Longrightarrow> \<exists>xs1 xs2. xs = xs1 @ k # xs2 \<and> set xs1 = set ks1"
proof (induction xs arbitrary: ks2 rule: rev_induct)
  case Nil
  then show ?case by (simp add: first_seen_def)
next
  case (snoc x xs)
  show ?case
  proof (cases "x \<in> set xs")
    case True
    then have "first_seen xs = ks1 @ k # ks2" using snoc.prems by (simp add: first_seen_snoc)
    then obtain xs1 xs2 where "xs = xs1 @ k # xs2" "set xs1 = set ks1" using snoc.IH by blast
    then have "xs @ [x] = xs1 @ k # (xs2 @ [x]) \<and> set xs1 = set ks1" by simp
    then show ?thesis by blast
  next
    case False
    then have eq: "first_seen xs @ [x] = ks1 @ k # ks2" using snoc.prems by (simp add: first_seen_snoc)
    show ?thesis
    proof (cases ks2 rule: rev_cases)
      case Nil
      then have "first_seen xs = ks1" "x = k" using eq by auto
      then have "xs @ [x] = xs @ k # [] \<and> set xs = set ks1" using set_first_seen[of xs] by simp
      then show ?thesis by blast
    next
      case (snoc ks2' y)
      then have "first_seen xs = ks1 @ k # ks2'" using eq by auto
      then obtain xs1 xs2 where "xs = xs1 @ k # xs2" "set xs1 = set ks1" using snoc.IH by blast
      then have "xs @ [x] = xs1 @ k # (xs2 @ [x]) \<and> set xs1 = set ks1" by simp
      then show ?thesis by blast
    qed
  qed
qed

lemma find_first_hit:
  "\<forall>d \<in> set xs1. \<not> P d \<Longrightarrow> P k \<Longrightarrow> find P (xs1 @ k # xs2) = Some k"
  by (induction xs1) auto

lemma most_common_plurality:
  assumes "codes \<noteq> []"
  shows "\<exists>code. most_common_1 (Counter codes) = [(code, count_list codes code)] \<and>
           code \<in> set codes \<and> plurality_first codes = Some code"
proof -
  let ?f = "\<lambda>k. (k, count_list codes k)"
  have tally: "Counter codes = map ?f (first_seen codes)" by (rule Counter_tally)
  have "first_seen codes \<noteq> []" using assms set_first_seen[of codes] by (metis set_empty)
  then obtain item items where items: "Counter codes = item # items"
    using tally by (cases "Counter codes") auto
  let ?b = "foldl max_step item items"
  have mc: "most_common_1 (Counter codes) = [?b]" by (simp add: most_common_1_def items)
  obtain ys zs where split: "item # items = ys @ ?b # zs"
    and before: "\<forall>y \<in> set ys. snd y < snd ?b"
    and after: "\<forall>z \<in> set zs. snd z \<le> snd ?b"
    using foldl_max_step[of item items] by blast
  have "map ?f (first_seen codes) = ys @ ?b # zs" using tally items split by simp
  then obtain ks1 k ks2 where ks: "first_seen codes = ks1 @ k # ks2"
    and ys: "ys = map ?f ks1" and b: "?b = ?f k" and zs: "zs = map ?f ks2"
    by (auto simp: map_eq_append_conv map_eq_Cons_conv)
  have k_in: "k \<in> set codes" using ks set_first_seen[of codes] by auto
  have lt: "\<forall>d \<in> set ks1. count_list codes d < count_list codes k" using before ys b by simp
  have le: "\<forall>d \<in> set ks2. count_list codes d \<le> count_list codes k" using after zs b by simp
  have top: "\<forall>d \<in> set codes. count_list codes d \<le> count_list codes k"
  proof
    fix d assume "d \<in> set codes"
    then have "d \<in> set ks1 \<or> d = k \<or> d \<in> set ks2" using ks set_first_seen[of codes] by auto
    then show "count_list codes d \<le> count_list codes k" using lt le by force
  qed
  obtain xs1 xs2 where codes: "codes = xs1 @ k # xs2" and xs1: "set xs1 = set ks1"
    using first_seen_split[OF ks] by blast
  have "\<forall>d \<in> set xs1. \<not> (\<forall>e \<in> set codes. count_list codes e \<le> count_list codes d)"
    using lt xs1 k_in by (metis not_le)
  then have "find (\<lambda>c. \<forall>e \<in> set codes. count_list codes e \<le> count_list codes c) (xs1 @ k # xs2) = Some k"
    using top by (rule find_first_hit)
  then have "plurality_first codes = Some k" unfolding plurality_first_def using codes by simp
  then show ?thesis using mc b k_in by auto
qed

section \<open>Lemmas: what an appended record says about its property\<close>

lemma property_body_emits:
  assumes "property_body G c all_parcels codes_dict valid_codes results row = Inr (Some s)"
  shows "\<exists>pg g x y nearby code votes others.
      find_property_geom all_parcels (LOC_ID row) = Some pg \<and> geometry (fst pg) = Some g \<and>
      centroid_xy G g = Some (x, y) \<and> normalize_centroid G c x y = Some (lat s, lng s) \<and>
      in_massachusetts (lat s) (lng s) \<and>
      nearby_parcels G all_parcels g (LOC_ID row) = Inr nearby \<and> nearby \<noteq> [] \<and>
      nearby_valid_codes valid_codes nearby \<noteq> [] \<and>
      most_common_1 (Counter (map (\<lambda>r. USE_CODE (snd r)) (nearby_valid_codes valid_codes nearby)))
        = (code, votes) # others \<and>
      code \<in> valid_codes \<and> suggested_code s = code \<and>
      confidence s = real votes / real (length (nearby_valid_codes valid_codes nearby)) \<and>
      loc_id s = LOC_ID row \<and> nearby_count s = length nearby \<and> current_code s = USE_CODE row"
proof -
  note b = assms[unfolded property_body_def]
  obtain pg where pg: "find_property_geom all_parcels (LOC_ID row) = Some pg"
    using b by (cases "find_property_geom all_parcels (LOC_ID row)") simp_all
  obtain g where g: "geometry (fst pg) = Some g"
    using b pg by (cases "geometry (fst pg)") simp_all
  obtain x y where xy: "centroid_xy G g = Some (x, y)"
    using b pg g by (cases "centroid_xy G g") auto
  obtain la lo where ll: "normalize_centroid G c x y = Some (la, lo)"
    using b pg g xy by (cases "normalize_centroid G c x y") auto
  have box: "in_massachusetts la lo"
    using b pg g xy ll by (cases "in_massachusetts la lo") simp_all
  obtain nearby where nearby: "nearby_parcels G all_parcels g (LOC_ID row) = Inr nearby"
    using b pg g xy ll box by (cases "nearby_parcels G all_parcels g (LOC_ID row)") simp_all
  have ne: "nearby \<noteq> []"
    using b pg g xy ll box nearby by (cases nearby) simp_all
  let ?valid = "nearby_valid_codes valid_codes nearby"
  have valid: "?valid \<noteq> []"
    using b pg g xy ll box nearby ne by (cases "?valid = []") (simp_all add: Let_def)
  let ?mc = "most_common_1 (Counter (map (\<lambda>r. USE_CODE (snd r)) ?valid))"
  obtain code votes others where mc: "?mc = (code, votes) # others"
    using b pg g xy ll box nearby ne valid by (cases ?mc) (auto simp: Let_def)
  have code: "code \<in> valid_codes"
    using b pg g xy ll box nearby ne valid mc by (cases "code \<in> valid_codes") (simp_all add: Let_def)
  have s: "s = \<lparr>id_key = ''prop_'' @ str_nat (length results),
                prop_id = (case PROP_ID row of None \<Rightarrow> [] | Some v \<Rightarrow> v),
                loc_id = LOC_ID row,
                address = (case SITE_ADDR row of None \<Rightarrow> ''Unknown Address'' | Some v \<Rightarrow> v),
                current_code = USE_CODE row,
                suggested_code = code,
                confidence = real votes / real (length ?valid),
                description = (case codes_dict code of None \<Rightarrow> ''Unknown'' | Some d \<Rightarrow> d),
                lat = la, lng = lo, nearby_count = length nearby\<rparr>"
    using b pg g xy ll box nearby ne valid mc code by (simp add: Let_def)
  have "lat s = la" "lng s = lo" "suggested_code s = code" "loc_id s = LOC_ID row"
    "nearby_count s = length nearby" "current_code s = USE_CODE row"
    "confidence s = real votes / real (length ?valid)"
    by (simp_all add: s)
  then show ?thesis using pg g xy ll box nearby ne valid mc code by force
qed

lemma analysis_loop_results:
  "fst (analysis_loop body t n rows results pr) =
   foldl (\<lambda>rs row. case body rs row of Inl e \<Rightarrow> rs | Inr None \<Rightarrow> rs | Inr (Some s) \<Rightarrow> rs @ [s])
     results rows"
  by (induction rows arbitrary: n results pr) (simp_all add: Let_def split_def)

lemma foldl_results_origin:
  "s \<in> set (foldl (\<lambda>rs row. case body rs row of Inl e \<Rightarrow> rs | Inr None \<Rightarrow> rs
                                | Inr (Some s) \<Rightarrow> rs @ [s]) results rows) \<Longrightarrow>
   s \<in> set results \<or> (\<exists>row \<in> set rows. \<exists>rs. body rs row = Inr (Some s))"
proof (induction rows arbitrary: results)
  case Nil
  then show ?case by simp
next
  case (Cons row rows)
  let ?results' = "case body results row of Inl e \<Rightarrow> results | Inr None \<Rightarrow> results
                   | Inr (Some s) \<Rightarrow> results @ [s]"
  from Cons.prems have "s \<in> set ?results' \<or> (\<exists>row \<in> set rows. \<exists>rs. body rs row = Inr (Some s))"
    by (intro Cons.IH) simp
  moreover have "s \<in> set ?results' \<Longrightarrow> s \<in> set results \<or> body results row = Inr (Some s)"
    by (cases "body results row") (auto split: option.splits)
  ultimately show ?case by auto
qed

lemma perform_results:
  "fst (perform_spatial_analysis G parcels_gdf assessment_df sample codes_dict valid_codes pr) =
   (case debug_sample_coordinates (parcel_rows parcels_gdf) of
      Inl e \<Rightarrow> []
    | Inr u \<Rightarrow>
        foldl (\<lambda>rs row.
                 case property_body G (crs parcels_gdf)
                        (build_all_parcels (parcel_rows parcels_gdf) assessment_df)
                        codes_dict valid_codes rs row of
                   Inl e \<Rightarrow> rs | Inr None \<Rightarrow> rs | Inr (Some s) \<Rightarrow> rs @ [s])
          [] sample)"
  unfolding perform_spatial_analysis_def Let_def
  by (simp add: analysis_loop_results split_def split: sum.splits)

lemma emitted_origin:
  assumes "s \<in> set (fst (perform_spatial_analysis G parcels_gdf assessment_df sample codes_dict valid_codes pr))"
  shows "\<exists>row \<in> set sample. \<exists>rs.
           property_body G (crs parcels_gdf) (build_all_parcels (parcel_rows parcels_gdf) assessment_df)
             codes_dict valid_codes rs row = Inr (Some s)"
proof (cases "debug_sample_coordinates (parcel_rows parcels_gdf)")
  case (Inl e)
  then show ?thesis using assms by (simp add: perform_results)
next
  case (Inr u)
  then show ?thesis using assms foldl_results_origin[of s _ "[]" sample]
    by (simp add: perform_results)
qed

lemma emitted_vote:
  assumes "property_body G c all_parcels codes_dict valid_codes results row = Inr (Some s)"
  shows "\<exists>nearby. property_neighbors G all_parcels (loc_id s) = Some nearby \<and>
           nearby_valid_codes valid_codes nearby \<noteq> [] \<and>
           plurality_first (map (\<lambda>r. USE_CODE (snd r)) (nearby_valid_codes valid_codes nearby))
             = Some (suggested_code s) \<and>
           suggested_code s \<in> set (map (\<lambda>r. USE_CODE (snd r)) (nearby_valid_codes valid_codes nearby)) \<and>
           confidence s =
             real (count_list (map (\<lambda>r. USE_CODE (snd r)) (nearby_valid_codes valid_codes nearby))
                     (suggested_code s))
             / real (length (nearby_valid_codes valid_codes nearby)) \<and>
           suggested_code s \<in> valid_codes \<and>
           nearby_count s = length nearby"
proof -
  from property_body_emits[OF assms] obtain pg g nearby code votes others where
    pg: "find_property_geom all_parcels (LOC_ID row) = Some pg" and g: "geometry (fst pg) = Some g" and
    nearby: "nearby_parcels G all_parcels g (LOC_ID row) = Inr nearby" and
    valid: "nearby_valid_codes valid_codes nearby \<noteq> []" and
    mc: "most_common_1 (Counter (map (\<lambda>r. USE_CODE (snd r)) (nearby_valid_codes valid_codes nearby)))
        = (code, votes) # others" and
    code: "code \<in> valid_codes" "suggested_code s = code" and
    conf: "confidence s = real votes / real (length (nearby_valid_codes valid_codes nearby))" and
    loc: "loc_id s = LOC_ID row" and cnt: "nearby_count s = length nearby"
    by blast
  let ?codes = "map (\<lambda>r. USE_CODE (snd r)) (nearby_valid_codes valid_codes nearby)"
  have "?codes \<noteq> []" using valid by simp
  from most_common_plurality[OF this] obtain k where
    k: "most_common_1 (Counter ?codes) = [(k, count_list ?codes k)]" "k \<in> set ?codes"
       "plurality_first ?codes = Some k"
    by blast
  from k(1) mc have ck: "code = k" "votes = count_list ?codes k" by simp_all
  have pn: "property_neighbors G all_parcels (loc_id s) = Some nearby"
    by (simp add: property_neighbors_def loc pg g nearby)
  show ?thesis
    apply (rule exI[of _ nearby])
    using pn valid k(2,3) ck code conf cnt by simp
qed

lemma plurality_first_Some:
  assumes "plurality_first codes = Some c"
  shows "(\<forall>d. count_list codes d \<le> count_list codes c) \<and>
         (\<exists>before after. codes = before @ c # after \<and>
            (\<forall>d \<in> set before. count_list codes d < count_list codes c))"
proof -
  let ?P = "\<lambda>c. \<forall>d \<in> set codes. count_list codes d \<le> count_list codes c"
  from assms obtain i where i: "i < length codes" "?P (codes ! i)" "c = codes ! i"
    "\<forall>j < i. \<not> ?P (codes ! j)"
    unfolding plurality_first_def find_Some_iff by blast
  have top: "count_list codes d \<le> count_list codes c" for d
  proof (cases "d \<in> set codes")
    case True
    then show ?thesis using i(2,3) by simp
  next
    case False
    then show ?thesis by (simp add: count_list_0_iff)
  qed
  have split: "codes = take i codes @ c # drop (Suc i) codes"
    using i(1,3) by (simp add: id_take_nth_drop)
  have "count_list codes d < count_list codes c" if "d \<in> set (take i codes)" for d
  proof -
    from that obtain j where j: "j < i" "d = codes ! j"
      using i(1) by (auto simp: in_set_conv_nth)
    with i(4) obtain e where "\<not> count_list codes e \<le> count_list codes d" by blast
    with top[of e] show ?thesis by simp
  qed
  with top split show ?thesis by blast
qed

section \<open>The example town, evaluated\<close>

lemma digit_char_values:
  "digit_char 0 = CHR ''0''" "digit_char (Suc 0) = CHR ''1''" "digit_char 1 = CHR ''1''"
  by code_simp+

lemmas town_defs =
  build_all_parcels_def merge_inner_def truncate_joined_codes_def
  truncate_use_codes_def town_assessment_def town_parcels_def town_row_def town_non_matching_def
  debug_sample_coordinates_def property_body_def find_property_geom_def disc_ops_def
  normalize_centroid_def f_gt_def in_massachusetts_def nearby_parcels_def intersects_mask_def
  nearby_valid_codes_def Counter_def counter_incr_def most_common_1_def max_step_def town_codes_def
  processing_progress_def town_suggestion_P1_def town_suggestion_P6_def str_nat.simps
  digit_char_values Let_def

lemma town_results:
  "fst (perform_spatial_analysis disc_ops town_parcels (truncate_use_codes town_assessment)
     town_non_matching town_codes (dom town_codes) processing_progress) =
   [town_suggestion_P1, town_suggestion_P6]"
  by (simp add: perform_results town_defs)

lemma town_partition:
  "filter (\<lambda>r. USE_CODE r \<notin> dom town_codes) (truncate_use_codes town_assessment) = town_non_matching"
  by (simp add: town_defs)

lemma town_load: "load_classification_codes town_codes_csv = town_codes"
  by (simp add: load_classification_codes_def load_codes_body_def town_codes_csv_def
      code_columns_def frame_column_def py_dict_def town_codes_def)

section \<open>The claims\<close>

text \<open>
  C1. Every record that \<^const>\<open>perform_spatial_analysis\<close> emits suggests the plurality code
  of the valid-code neighbours in its property's buffer: no code has more votes, and it
  is the first such code in the iteration order of the neighbours, so every code met
  before its first occurrence has strictly fewer votes (ties go to the code met first).
\<close>

theorem suggested_code_is_first_plurality:
  assumes "s \<in> set (fst (perform_spatial_analysis G parcels_gdf assessment_df sample
                          codes_dict valid_codes pr))"
  shows "\<exists>nearby codes.
           property_neighbors G (build_all_parcels (parcel_rows parcels_gdf) assessment_df) (loc_id s)
             = Some nearby \<and>
           codes = map (\<lambda>r. USE_CODE (snd r)) (nearby_valid_codes valid_codes nearby) \<and>
           plurality_first codes = Some (suggested_code s) \<and>
           (\<forall>d. count_list codes d \<le> count_list codes (suggested_code s)) \<and>
           (\<exists>before after. codes = before @ suggested_code s # after \<and>
              (\<forall>d \<in> set before. count_list codes d < count_list codes (suggested_code s)))"
proof -
  from emitted_origin[OF assms] obtain row rs where
    "property_body G (crs parcels_gdf) (build_all_parcels (parcel_rows parcels_gdf) assessment_df)
       codes_dict valid_codes rs row = Inr (Some s)"
    by blast
  from emitted_vote[OF this] obtain nearby where
    n: "property_neighbors G (build_all_parcels (parcel_rows parcels_gdf) assessment_df) (loc_id s)
          = Some nearby"
    and p: "plurality_first (map (\<lambda>r. USE_CODE (snd r)) (nearby_valid_codes valid_codes nearby))
          = Some (suggested_code s)"
    by blast
  from plurality_first_Some[OF p] n p show ?thesis by blast
qed

theorem suggested_code_is_first_plurality_witness:
  "town_suggestion_P1 \<in> set (fst (perform_spatial_analysis disc_ops town_parcels
       (truncate_use_codes town_assessment) town_non_matching town_codes (dom town_codes)
       processing_progress)) \<and>
   (\<exists>nearby codes.
      property_neighbors disc_ops
        (build_all_parcels (parcel_rows town_parcels) (truncate_use_codes town_assessment))
        (loc_id town_suggestion_P1) = Some nearby \<and>
      codes = map (\<lambda>r. USE_CODE (snd r)) (nearby_valid_codes (dom town_codes) nearby) \<and>
      plurality_first codes = Some (suggested_code town_suggestion_P1) \<and>
      (\<forall>d. count_list codes d \<le> count_list codes (suggested_code town_suggestion_P1)) \<and>
      (\<exists>before after. codes = before @ suggested_code town_suggestion_P1 # after \<and>
         (\<forall>d \<in> set before. count_list codes d < count_list codes (suggested_code town_suggestion_P1))))"
proof -
  have emitted: "town_suggestion_P1 \<in> set (fst (perform_spatial_analysis disc_ops town_parcels
       (truncate_use_codes town_assessment) town_non_matching town_codes (dom town_codes)
       processing_progress))"
    by (simp add: town_results)
  from suggested_code_is_first_plurality[OF emitted] emitted show ?thesis by blast
qed

lemma town_neighbors_L1:
  "\<exists>nearby. property_neighbors disc_ops
       (build_all_parcels (parcel_rows town_parcels) (truncate_use_codes town_assessment)) ''L1''
       = Some nearby \<and>
     map (\<lambda>r. LOC_ID (fst r)) nearby = [''L2'', ''L3'', ''L4'', ''L5'', ''L6''] \<and>
     map (\<lambda>r. USE_CODE (snd r)) nearby = [''102'', ''101'', ''101'', ''102'', ''998''] \<and>
     map (\<lambda>r. USE_CODE (snd r)) (nearby_valid_codes (dom town_codes) nearby)
       = [''102'', ''101'', ''101'', ''102'']"
  by (simp add: property_neighbors_def town_defs)

lemma town_P1_emitted:
  "town_suggestion_P1 \<in> set (fst (perform_spatial_analysis disc_ops town_parcels
       (truncate_use_codes town_assessment) town_non_matching town_codes (dom town_codes)
       processing_progress))"
  by (simp add: town_results)

text \<open>
  C2. For every emitted record the confidence is the number of votes for the suggested
  code divided by the number of valid-code neighbours; that number is not zero (no
  record is emitted without a valid-code neighbour), the confidence lies in \<open>(0, 1]\<close>,
  and the suggested code is one of the valid codes.
\<close>

theorem confidence_is_vote_share:
  assumes "s \<in> set (fst (perform_spatial_analysis G parcels_gdf assessment_df sample
                          codes_dict valid_codes pr))"
  shows "\<exists>nearby valid.
           property_neighbors G (build_all_parcels (parcel_rows parcels_gdf) assessment_df) (loc_id s)
             = Some nearby \<and>
           valid = nearby_valid_codes valid_codes nearby \<and>
           valid \<noteq> [] \<and>
           confidence s =
             real (count_list (map (\<lambda>r. USE_CODE (snd r)) valid) (suggested_code s))
             / real (length valid) \<and>
           0 < confidence s \<and> confidence s \<le> 1 \<and>
           suggested_code s \<in> valid_codes"
proof -
  from emitted_origin[OF assms] obtain row rs where
    "property_body G (crs parcels_gdf) (build_all_parcels (parcel_rows parcels_gdf) assessment_df)
       codes_dict valid_codes rs row = Inr (Some s)"
    by blast
  from emitted_vote[OF this] obtain nearby where
    n: "property_neighbors G (build_all_parcels (parcel_rows parcels_gdf) assessment_df) (loc_id s)
          = Some nearby"
    and ne: "nearby_valid_codes valid_codes nearby \<noteq> []"
    and mem: "suggested_code s \<in> set (map (\<lambda>r. USE_CODE (snd r)) (nearby_valid_codes valid_codes nearby))"
    and conf: "confidence s =
             real (count_list (map (\<lambda>r. USE_CODE (snd r)) (nearby_valid_codes valid_codes nearby))
                     (suggested_code s))
             / real (length (nearby_valid_codes valid_codes nearby))"
    and ok: "suggested_code s \<in> valid_codes"
    by blast
  let ?valid = "nearby_valid_codes valid_codes nearby"
  let ?codes = "map (\<lambda>r. USE_CODE (snd r)) ?valid"
  have len: "0 < length ?valid" using ne by simp
  have pos: "0 < count_list ?codes (suggested_code s)"
    using mem by (metis count_list_0_iff neq0_conv)
  have "count_list ?codes (suggested_code s) \<le> length ?codes" by (rule count_le_length)
  then have le: "count_list ?codes (suggested_code s) \<le> length ?valid" by simp
  have "0 < confidence s" using pos len by (simp add: conf)
  moreover have "confidence s \<le> 1" using le len by (simp add: conf)
  ultimately show ?thesis using n ne conf ok by blast
qed

theorem confidence_is_vote_share_witness:
  "town_suggestion_P1 \<in> set (fst (perform_spatial_analysis disc_ops town_parcels
       (truncate_use_codes town_assessment) town_non_matching town_codes (dom town_codes)
       processing_progress)) \<and>
   (\<exists>nearby valid.
      property_neighbors disc_ops
        (build_all_parcels (parcel_rows town_parcels) (truncate_use_codes town_assessment))
        (loc_id town_suggestion_P1) = Some nearby \<and>
      valid = nearby_valid_codes (dom town_codes) nearby \<and>
      valid \<noteq> [] \<and>
      confidence town_suggestion_P1 =
        real (count_list (map (\<lambda>r. USE_CODE (snd r)) valid) (suggested_code town_suggestion_P1))
        / real (length valid) \<and>
      0 < confidence town_suggestion_P1 \<and> confidence town_suggestion_P1 \<le> 1 \<and>
      suggested_code town_suggestion_P1 \<in> dom town_codes)"
  using confidence_is_vote_share[OF town_P1_emitted] town_P1_emitted by blast

text \<open>
  C5. The neighbours of a location key never contain a merged row of that key, however
  many rows share it, and they are rows of the merged frame. For every emitted record
  the neighbour count and the plurality vote are taken over these neighbours, so no row
  with the property's own key votes.
\<close>

theorem self_exclusion:
  "(property_neighbors G all_parcels loc = Some nearby \<longrightarrow>
      (\<forall>r \<in> set nearby. LOC_ID (fst r) \<noteq> loc) \<and> set nearby \<subseteq> set all_parcels) \<and>
   (s \<in> set (fst (perform_spatial_analysis G parcels_gdf assessment_df sample
                     codes_dict valid_codes pr)) \<longrightarrow>
      (\<exists>voters. property_neighbors G (build_all_parcels (parcel_rows parcels_gdf) assessment_df)
                  (loc_id s) = Some voters \<and>
         (\<forall>r \<in> set voters. LOC_ID (fst r) \<noteq> loc_id s) \<and>
         nearby_count s = length voters \<and>
         plurality_first (map (\<lambda>r. USE_CODE (snd r)) (nearby_valid_codes valid_codes voters))
           = Some (suggested_code s)))"
proof -
  have excl: "(\<forall>r \<in> set nearby. LOC_ID (fst r) \<noteq> loc) \<and> set nearby \<subseteq> set all_parcels"
    if "property_neighbors G all_parcels loc = Some nearby" for G :: "('a, 'b) geo_ops"
      and all_parcels loc nearby
  proof -
    from that obtain g where "nearby_parcels G all_parcels g loc = Inr nearby"
      unfolding property_neighbors_def by (auto split: option.splits sum.splits)
    then obtain mask where
      "nearby = filter (\<lambda>r. LOC_ID (fst r) \<noteq> loc) (map fst (filter snd (zip all_parcels mask)))"
      unfolding nearby_parcels_def by (auto split: option.splits)
    then show ?thesis by (auto dest: set_zip_leftD)
  qed
  have "\<exists>voters. property_neighbors G (build_all_parcels (parcel_rows parcels_gdf) assessment_df)
                  (loc_id s) = Some voters \<and>
         (\<forall>r \<in> set voters. LOC_ID (fst r) \<noteq> loc_id s) \<and>
         nearby_count s = length voters \<and>
         plurality_first (map (\<lambda>r. USE_CODE (snd r)) (nearby_valid_codes valid_codes voters))
           = Some (suggested_code s)"
    if "s \<in> set (fst (perform_spatial_analysis G parcels_gdf assessment_df sample
                     codes_dict valid_codes pr))"
  proof -
    from emitted_origin[OF that] obtain row rs where
      "property_body G (crs parcels_gdf) (build_all_parcels (parcel_rows parcels_gdf) assessment_df)
         codes_dict valid_codes rs row = Inr (Some s)"
      by blast
    from emitted_vote[OF this] obtain voters where
      v: "property_neighbors G (build_all_parcels (parcel_rows parcels_gdf) assessment_df) (loc_id s)
            = Some voters"
         "plurality_first (map (\<lambda>r. USE_CODE (snd r)) (nearby_valid_codes valid_codes voters))
            = Some (suggested_code s)"
         "nearby_count s = length voters"
      by blast
    from excl[OF v(1)] v show ?thesis by blast
  qed
  with excl show ?thesis by blast
qed

theorem self_exclusion_witness:
  "(\<exists>nearby. property_neighbors disc_ops
       (build_all_parcels (parcel_rows town_parcels) (truncate_use_codes town_assessment)) ''L1''
       = Some nearby \<and>
     length (filter (\<lambda>r. LOC_ID (fst r) = ''L1'')
       (build_all_parcels (parcel_rows town_parcels) (truncate_use_codes town_assessment))) = 2 \<and>
     (\<forall>r \<in> set nearby. LOC_ID (fst r) \<noteq> ''L1'') \<and>
     set nearby \<subseteq> set (build_all_parcels (parcel_rows town_parcels) (truncate_use_codes town_assessment))) \<and>
   town_suggestion_P1 \<in> set (fst (perform_spatial_analysis disc_ops town_parcels
       (truncate_use_codes town_assessment) town_non_matching town_codes (dom town_codes)
       processing_progress)) \<and>
   (\<exists>voters. property_neighbors disc_ops
                  (build_all_parcels (parcel_rows town_parcels) (truncate_use_codes town_assessment))
                  (loc_id town_suggestion_P1) = Some voters \<and>
         (\<forall>r \<in> set voters. LOC_ID (fst r) \<noteq> loc_id town_suggestion_P1) \<and>
         nearby_count town_suggestion_P1 = length voters \<and>
         plurality_first (map (\<lambda>r. USE_CODE (snd r)) (nearby_valid_codes (dom town_codes) voters))
           = Some (suggested_code town_suggestion_P1))"
proof -
  obtain nearby where n: "property_neighbors disc_ops
       (build_all_parcels (parcel_rows town_parcels) (truncate_use_codes town_assessment)) ''L1''
       = Some nearby"
    using town_neighbors_L1 by blast
  have two: "length (filter (\<lambda>r. LOC_ID (fst r) = ''L1'')
       (build_all_parcels (parcel_rows town_parcels) (truncate_use_codes town_assessment))) = 2"
    by (simp add: town_defs)
  note inst = self_exclusion[of disc_ops
      "build_all_parcels (parcel_rows town_parcels) (truncate_use_codes town_assessment)" "''L1''" nearby
      town_suggestion_P1 town_parcels "truncate_use_codes town_assessment" town_non_matching
      town_codes "dom town_codes" processing_progress]
  from inst n two town_P1_emitted show ?thesis by blast
qed

text \<open>
  C10. For every emitted record \<^verbatim>\<open>nearby_count\<close> is the number of all neighbours in the
  buffer after the property's own rows are removed, those with a valid code and those
  without; the confidence is a share of the valid-code neighbours only. So the count is
  at least the number of valid-code neighbours, the confidence times that number is the
  vote count, and the confidence times \<^verbatim>\<open>nearby_count\<close> can differ from the vote
  count, as for the first record of the example town.
\<close>

theorem nearby_count_includes_invalid_neighbors:
  "(s \<in> set (fst (perform_spatial_analysis G parcels_gdf assessment_df sample
                     codes_dict valid_codes pr)) \<longrightarrow>
      (\<exists>nearby valid.
         property_neighbors G (build_all_parcels (parcel_rows parcels_gdf) assessment_df) (loc_id s)
           = Some nearby \<and>
         valid = nearby_valid_codes valid_codes nearby \<and>
         nearby_count s = length nearby \<and>
         nearby_count s = length valid + length (filter (\<lambda>r. USE_CODE (snd r) \<notin> valid_codes) nearby) \<and>
         length valid \<le> nearby_count s \<and>
         confidence s * real (length valid) =
           real (count_list (map (\<lambda>r. USE_CODE (snd r)) valid) (suggested_code s)))) \<and>
   (\<exists>t nearby.
      t \<in> set (fst (perform_spatial_analysis disc_ops town_parcels
             (truncate_use_codes town_assessment) town_non_matching town_codes (dom town_codes)
             processing_progress)) \<and>
      property_neighbors disc_ops
        (build_all_parcels (parcel_rows town_parcels) (truncate_use_codes town_assessment)) (loc_id t)
        = Some nearby \<and>
      confidence t * real (nearby_count t) \<noteq>
        real (count_list (map (\<lambda>r. USE_CODE (snd r)) (nearby_valid_codes (dom town_codes) nearby))
                (suggested_code t)))"
proof -
  have general: "\<exists>nearby valid.
         property_neighbors G (build_all_parcels (parcel_rows parcels_gdf) assessment_df) (loc_id s)
           = Some nearby \<and>
         valid = nearby_valid_codes valid_codes nearby \<and>
         nearby_count s = length nearby \<and>
         nearby_count s = length valid + length (filter (\<lambda>r. USE_CODE (snd r) \<notin> valid_codes) nearby) \<and>
         length valid \<le> nearby_count s \<and>
         confidence s * real (length valid) =
           real (count_list (map (\<lambda>r. USE_CODE (snd r)) valid) (suggested_code s))"
    if "s \<in> set (fst (perform_spatial_analysis G parcels_gdf assessment_df sample
                     codes_dict valid_codes pr))"
  proof -
    from emitted_origin[OF that] obtain row rs where
      "property_body G (crs parcels_gdf) (build_all_parcels (parcel_rows parcels_gdf) assessment_df)
         codes_dict valid_codes rs row = Inr (Some s)"
      by blast
    from emitted_vote[OF this] obtain nearby where
      n: "property_neighbors G (build_all_parcels (parcel_rows parcels_gdf) assessment_df) (loc_id s)
            = Some nearby"
      and ne: "nearby_valid_codes valid_codes nearby \<noteq> []"
      and conf: "confidence s =
             real (count_list (map (\<lambda>r. USE_CODE (snd r)) (nearby_valid_codes valid_codes nearby))
                     (suggested_code s))
             / real (length (nearby_valid_codes valid_codes nearby))"
      and cnt: "nearby_count s = length nearby"
      by blast
    let ?valid = "nearby_valid_codes valid_codes nearby"
    have sum: "length nearby = length ?valid + length (filter (\<lambda>r. USE_CODE (snd r) \<notin> valid_codes) nearby)"
      unfolding nearby_valid_codes_def
      using sum_length_filter_compl[of "\<lambda>r. USE_CODE (snd r) \<in> valid_codes" nearby] by simp
    have "0 < length ?valid" using ne by simp
    then have "confidence s * real (length ?valid) =
               real (count_list (map (\<lambda>r. USE_CODE (snd r)) ?valid) (suggested_code s))"
      by (simp add: conf)
    with n cnt sum show ?thesis by (intro exI[of _ nearby] exI[of _ ?valid]) simp
  qed
  from town_neighbors_L1 obtain nearby where facts:
    "property_neighbors disc_ops
       (build_all_parcels (parcel_rows town_parcels) (truncate_use_codes town_assessment)) ''L1''
       = Some nearby \<and>
     map (\<lambda>r. LOC_ID (fst r)) nearby = [''L2'', ''L3'', ''L4'', ''L5'', ''L6''] \<and>
     map (\<lambda>r. USE_CODE (snd r)) nearby = [''102'', ''101'', ''101'', ''102'', ''998''] \<and>
     map (\<lambda>r. USE_CODE (snd r)) (nearby_valid_codes (dom town_codes) nearby)
       = [''102'', ''101'', ''101'', ''102'']" ..
  note n = facts[THEN conjunct1]
  note codes = facts[THEN conjunct2, THEN conjunct2, THEN conjunct2]
  have differ: "confidence town_suggestion_P1 * real (nearby_count town_suggestion_P1) \<noteq>
        real (count_list (map (\<lambda>r. USE_CODE (snd r)) (nearby_valid_codes (dom town_codes) nearby))
                (suggested_code town_suggestion_P1))"
    unfolding codes by (simp add: town_suggestion_P1_def)
  have at: "property_neighbors disc_ops
       (build_all_parcels (parcel_rows town_parcels) (truncate_use_codes town_assessment))
       (loc_id town_suggestion_P1) = Some nearby"
    using n by (simp add: town_suggestion_P1_def)
  show ?thesis
  proof (intro conjI impI)
    assume "s \<in> set (fst (perform_spatial_analysis G parcels_gdf assessment_df sample
                     codes_dict valid_codes pr))"
    then show "\<exists>nearby valid.
         property_neighbors G (build_all_parcels (parcel_rows parcels_gdf) assessment_df) (loc_id s)
           = Some nearby \<and>
         valid = nearby_valid_codes valid_codes nearby \<and>
         nearby_count s = length nearby \<and>
         nearby_count s = length valid + length (filter (\<lambda>r. USE_CODE (snd r) \<notin> valid_codes) nearby) \<and>
         length valid \<le> nearby_count s \<and>
         confidence s * real (length valid) =
           real (count_list (map (\<lambda>r. USE_CODE (snd r)) valid) (suggested_code s))"
      by (rule general)
  next
    show "\<exists>t nearby.
      t \<in> set (fst (perform_spatial_analysis disc_ops town_parcels
             (truncate_use_codes town_assessment) town_non_matching town_codes (dom town_codes)
             processing_progress)) \<and>
      property_neighbors disc_ops
        (build_all_parcels (parcel_rows town_parcels) (truncate_use_codes town_assessment)) (loc_id t)
        = Some nearby \<and>
      confidence t * real (nearby_count t) \<noteq>
        real (count_list (map (\<lambda>r. USE_CODE (snd r)) (nearby_valid_codes (dom town_codes) nearby))
                (suggested_code t))"
      using town_P1_emitted at differ
      by (intro exI[of _ town_suggestion_P1] exI[of _ nearby] conjI)
  qed
qed

theorem nearby_count_includes_invalid_neighbors_witness:
  "town_suggestion_P1 \<in> set (fst (perform_spatial_analysis disc_ops town_parcels
       (truncate_use_codes town_assessment) town_non_matching town_codes (dom town_codes)
       processing_progress)) \<and>
   (\<exists>nearby valid.
         property_neighbors disc_ops
           (build_all_parcels (parcel_rows town_parcels) (truncate_use_codes town_assessment))
           (loc_id town_suggestion_P1) = Some nearby \<and>
         valid = nearby_valid_codes (dom town_codes) nearby \<and>
         nearby_count town_suggestion_P1 = length nearby \<and>
         nearby_count town_suggestion_P1 =
           length valid + length (filter (\<lambda>r. USE_CODE (snd r) \<notin> dom town_codes) nearby) \<and>
         length valid \<le> nearby_count town_suggestion_P1 \<and>
         confidence town_suggestion_P1 * real (length valid) =
           real (count_list (map (\<lambda>r. USE_CODE (snd r)) valid) (suggested_code town_suggestion_P1)))"
proof -
  note inst = nearby_count_includes_invalid_neighbors[of town_suggestion_P1 disc_ops town_parcels
      "truncate_use_codes town_assessment" town_non_matching town_codes "dom town_codes"
      processing_progress]
  from inst[THEN conjunct1, THEN mp, OF town_P1_emitted] town_P1_emitted show ?thesis
    by (intro conjI)
qed

section \<open>Lemmas: the run\<close>

lemma analyze_gdb_result:
  assumes "assessment_layer \<noteq> []"
  shows "\<exists>res. fst (analyze_gdb G read_csv parcels_gdf assessment_layer pr) = Inr res \<and>
           success res \<and>
           total_properties res = length assessment_layer \<and>
           non_matching_count res =
             length (filter (\<lambda>r. USE_CODE r \<notin> dom (load_classification_codes read_csv))
                       (truncate_use_codes assessment_layer)) \<and>
           properties res =
             (if non_matching_count res > 0
              then fst (perform_spatial_analysis G parcels_gdf (truncate_use_codes assessment_layer)
                          (filter (\<lambda>r. USE_CODE r \<notin> dom (load_classification_codes read_csv))
                             (truncate_use_codes assessment_layer))
                          (load_classification_codes read_csv)
                          (dom (load_classification_codes read_csv)) pr)
              else []) \<and>
           analyzed_count res = length (properties res) \<and>
           match_percentage res =
             (real_of_int (int (total_properties res) - int (non_matching_count res))
                / real (total_properties res)) * 100 \<and>
           assessment_data res = truncate_use_codes assessment_layer"
proof -
  have "length (truncate_use_codes assessment_layer) \<noteq> 0"
    using assms by (simp add: truncate_use_codes_def)
  then show ?thesis
    unfolding analyze_gdb_def Let_def
    by (simp add: split_def truncate_use_codes_def)
qed

lemma analyze_gdb_empty:
  "fst (analyze_gdb G read_csv parcels_gdf [] pr) = Inl ZeroDivisionError"
  unfolding analyze_gdb_def Let_def
  by (simp add: split_def truncate_use_codes_def)

lemma foldl_results_length:
  "length (foldl (\<lambda>rs row. case body rs row of Inl e \<Rightarrow> rs | Inr None \<Rightarrow> rs
                                | Inr (Some s) \<Rightarrow> rs @ [s]) results rows)
   \<le> length results + length rows"
proof (induction rows arbitrary: results)
  case Nil
  show ?case by simp
next
  case (Cons row rows)
  let ?results' = "case body results row of Inl e \<Rightarrow> results | Inr None \<Rightarrow> results
                   | Inr (Some s) \<Rightarrow> results @ [s]"
  have "length ?results' \<le> length results + 1"
    by (cases "body results row") (auto split: option.splits)
  with Cons.IH[of ?results'] show ?case by simp
qed

lemma perform_results_length:
  "length (fst (perform_spatial_analysis G parcels_gdf assessment_df sample codes_dict valid_codes pr))
   \<le> length sample"
proof (cases "debug_sample_coordinates (parcel_rows parcels_gdf)")
  case (Inl e)
  then show ?thesis by (simp add: perform_results)
next
  case (Inr u)
  let ?body = "property_body G (crs parcels_gdf)
                 (build_all_parcels (parcel_rows parcels_gdf) assessment_df) codes_dict valid_codes"
  from foldl_results_length[of ?body "[]" sample] Inr show ?thesis
    by (simp add: perform_results)
qed

lemma build_all_parcels_row:
  assumes "r \<in> set (build_all_parcels parcels assessment)"
  shows "\<exists>p \<in> set parcels. \<exists>a \<in> set assessment.
           LOC_ID a = LOC_ID p \<and> r = (p, a\<lparr>USE_CODE := take 3 (USE_CODE a)\<rparr>)"
  using assms unfolding build_all_parcels_def truncate_joined_codes_def merge_inner_def
  by auto

lemma property_neighbors_subset:
  assumes "property_neighbors G all_parcels loc = Some nearby"
  shows "set nearby \<subseteq> set all_parcels"
proof -
  from assms obtain g where "nearby_parcels G all_parcels g loc = Inr nearby"
    unfolding property_neighbors_def by (auto split: option.splits sum.splits)
  then obtain mask where
    "nearby = filter (\<lambda>r. LOC_ID (fst r) \<noteq> loc) (map fst (filter snd (zip all_parcels mask)))"
    unfolding nearby_parcels_def by (auto split: option.splits)
  then show ?thesis by (auto dest: set_zip_leftD)
qed

lemma truncate_joined_keeps_key:
  "LOC_ID (fst ((\<lambda>(p, a). (p, a\<lparr>USE_CODE := take 3 (USE_CODE a)\<rparr>)) r)) = LOC_ID (fst r)"
  "geometry (fst ((\<lambda>(p, a). (p, a\<lparr>USE_CODE := take 3 (USE_CODE a)\<rparr>)) r)) = geometry (fst r)"
  "USE_CODE (snd ((\<lambda>(p, a). (p, a\<lparr>USE_CODE := take 3 (USE_CODE a)\<rparr>)) r)) = take 3 (USE_CODE (snd r))"
  by (cases r, simp)+

lemma find_property_geom_truncate:
  "find_property_geom (truncate_joined_codes rows) loc =
   map_option (\<lambda>(p, a). (p, a\<lparr>USE_CODE := take 3 (USE_CODE a)\<rparr>)) (find_property_geom rows loc)"
proof -
  have "filter (\<lambda>r. LOC_ID (fst r) = loc) (truncate_joined_codes rows) =
        truncate_joined_codes (filter (\<lambda>r. LOC_ID (fst r) = loc) rows)"
    unfolding truncate_joined_codes_def filter_map comp_def truncate_joined_keeps_key ..
  then show ?thesis
    unfolding find_property_geom_def
    by (cases "filter (\<lambda>r. LOC_ID (fst r) = loc) rows") (simp_all add: truncate_joined_codes_def)
qed

lemma intersects_mask_truncate:
  "intersects_mask G (truncate_joined_codes rows) buf = intersects_mask G rows buf"
  unfolding intersects_mask_def truncate_joined_codes_def map_map comp_def truncate_joined_keeps_key ..

lemma masked_rows_map:
  "map fst (filter snd (zip (map f xs) flags)) = map f (map fst (filter snd (zip xs flags)))"
proof (induction xs arbitrary: flags)
  case Nil
  show ?case by simp
next
  case (Cons x xs)
  show ?case by (cases flags) (simp_all add: Cons.IH)
qed

lemma nearby_parcels_truncate:
  "nearby_parcels G (truncate_joined_codes rows) g loc =
   map_sum id truncate_joined_codes (nearby_parcels G rows g loc)"
proof -
  have keep: "filter (\<lambda>r. LOC_ID (fst r) \<noteq> loc) (truncate_joined_codes xs) =
        truncate_joined_codes (filter (\<lambda>r. LOC_ID (fst r) \<noteq> loc) xs)" for xs :: "'a joined_row list"
    unfolding truncate_joined_codes_def filter_map comp_def truncate_joined_keeps_key ..
  have masked: "map fst (filter snd (zip (truncate_joined_codes rows) flags)) =
        truncate_joined_codes (map fst (filter snd (zip rows flags)))" for flags
    unfolding truncate_joined_codes_def by (rule masked_rows_map)
  show ?thesis
    unfolding nearby_parcels_def intersects_mask_truncate
    by (simp add: masked keep split: option.split)
qed

lemma property_neighbors_truncate:
  "property_neighbors G (truncate_joined_codes rows) loc =
   map_option truncate_joined_codes (property_neighbors G rows loc)"
proof (cases "find_property_geom rows loc")
  case None
  then show ?thesis by (simp add: property_neighbors_def find_property_geom_truncate)
next
  case (Some pg)
  then show ?thesis
    unfolding property_neighbors_def find_property_geom_truncate nearby_parcels_truncate
    by (cases "geometry (fst pg)"; cases pg)
       (auto simp: split: sum.split option.split)
qed

lemma valid_codes_of_truncated:
  "map (\<lambda>r. USE_CODE (snd r)) (nearby_valid_codes valid_codes (truncate_joined_codes raw)) =
   map (\<lambda>r. take 3 (USE_CODE (snd r))) (filter (\<lambda>r. take 3 (USE_CODE (snd r)) \<in> valid_codes) raw)"
  "length (nearby_valid_codes valid_codes (truncate_joined_codes raw)) =
   length (filter (\<lambda>r. take 3 (USE_CODE (snd r)) \<in> valid_codes) raw)"
  unfolding nearby_valid_codes_def truncate_joined_codes_def filter_map comp_def
    truncate_joined_keeps_key
  by simp_all

lemma emitted_vote_truncated:
  assumes "s \<in> set (fst (perform_spatial_analysis G parcels_gdf assessment_df sample
                          codes_dict valid_codes pr))"
  shows "\<exists>raw voters.
           property_neighbors G (merge_inner (parcel_rows parcels_gdf) assessment_df) (loc_id s)
             = Some raw \<and>
           voters = filter (\<lambda>r. take 3 (USE_CODE (snd r)) \<in> valid_codes) raw \<and>
           plurality_first (map (\<lambda>r. take 3 (USE_CODE (snd r))) voters) = Some (suggested_code s) \<and>
           confidence s =
             real (count_list (map (\<lambda>r. take 3 (USE_CODE (snd r))) voters) (suggested_code s))
             / real (length voters) \<and>
           length (suggested_code s) \<le> 3"
proof -
  from emitted_origin[OF assms] obtain row rs where
    "property_body G (crs parcels_gdf) (build_all_parcels (parcel_rows parcels_gdf) assessment_df)
       codes_dict valid_codes rs row = Inr (Some s)"
    by blast
  from emitted_vote[OF this] obtain nearby where
    n: "property_neighbors G (build_all_parcels (parcel_rows parcels_gdf) assessment_df) (loc_id s)
          = Some nearby"
    and p: "plurality_first (map (\<lambda>r. USE_CODE (snd r)) (nearby_valid_codes valid_codes nearby))
          = Some (suggested_code s)"
    and mem: "suggested_code s \<in> set (map (\<lambda>r. USE_CODE (snd r)) (nearby_valid_codes valid_codes nearby))"
    and conf: "confidence s =
             real (count_list (map (\<lambda>r. USE_CODE (snd r)) (nearby_valid_codes valid_codes nearby))
                     (suggested_code s))
             / real (length (nearby_valid_codes valid_codes nearby))"
    by blast
  from n obtain raw where
    raw: "property_neighbors G (merge_inner (parcel_rows parcels_gdf) assessment_df) (loc_id s) = Some raw"
    and nearby: "nearby = truncate_joined_codes raw"
    unfolding build_all_parcels_def property_neighbors_truncate by auto
  let ?voters = "filter (\<lambda>r. take 3 (USE_CODE (snd r)) \<in> valid_codes) raw"
  have p': "plurality_first (map (\<lambda>r. take 3 (USE_CODE (snd r))) ?voters) = Some (suggested_code s)"
    using p unfolding nearby valid_codes_of_truncated .
  have conf': "confidence s =
             real (count_list (map (\<lambda>r. take 3 (USE_CODE (snd r))) ?voters) (suggested_code s))
             / real (length ?voters)"
    using conf unfolding nearby valid_codes_of_truncated .
  have "suggested_code s \<in> set (map (\<lambda>r. take 3 (USE_CODE (snd r))) ?voters)"
    using mem unfolding nearby valid_codes_of_truncated .
  then have len: "length (suggested_code s) \<le> 3" by auto
  show ?thesis
    by (intro exI[of _ raw] exI[of _ ?voters] conjI raw refl p' conf' len)
qed

text \<open>
  C6. Use codes meet the reference table's keys only in truncated form. The run
  partitions the assessment rows by their codes cut to the first three characters, and
  returns the rows in that form. Every row of the merged frame carries the first three
  characters of the code of an assessment row of its key, whatever form that row had, so
  every neighbour that votes has a code of at most three characters, which cutting
  again leaves unchanged. The spatial analysis votes on these codes: for every emitted
  record, whatever the form of the codes in the assessment frame it was given, the
  neighbours that vote are those of the plain merge whose code cut to three characters
  is valid, the suggested code is the plurality of their cut codes, and the confidence is
  its share among them. A record of the run shows a current code of at most three
  characters that is not in the table.
\<close>

theorem codes_truncated_before_comparison:
  "(\<forall>r \<in> set (build_all_parcels parcels assessment_df).
      length (USE_CODE (snd r)) \<le> 3 \<and>
      take 3 (USE_CODE (snd r)) = USE_CODE (snd r) \<and>
      (\<exists>a \<in> set assessment_df. LOC_ID a = LOC_ID (fst r) \<and> USE_CODE (snd r) = take 3 (USE_CODE a))) \<and>
   (property_neighbors G (build_all_parcels parcels assessment_df) loc = Some nearby \<longrightarrow>
      (\<forall>r \<in> set (nearby_valid_codes valid_codes nearby).
         length (USE_CODE (snd r)) \<le> 3 \<and> USE_CODE (snd r) \<in> valid_codes)) \<and>
   (s \<in> set (fst (perform_spatial_analysis G parcels_gdf assessment_df sample
                     codes_dict valid_codes pr)) \<longrightarrow>
      (\<exists>raw voters.
         property_neighbors G (merge_inner (parcel_rows parcels_gdf) assessment_df) (loc_id s)
           = Some raw \<and>
         voters = filter (\<lambda>r. take 3 (USE_CODE (snd r)) \<in> valid_codes) raw \<and>
         plurality_first (map (\<lambda>r. take 3 (USE_CODE (snd r))) voters) = Some (suggested_code s) \<and>
         confidence s =
           real (count_list (map (\<lambda>r. take 3 (USE_CODE (snd r))) voters) (suggested_code s))
           / real (length voters) \<and>
         length (suggested_code s) \<le> 3)) \<and>
   (fst (analyze_gdb G read_csv parcels_gdf assessment_layer pr) = Inr res \<longrightarrow>
      assessment_data res = truncate_use_codes assessment_layer \<and>
      (\<forall>a \<in> set (assessment_data res). length (USE_CODE a) \<le> 3) \<and>
      non_matching_count res =
        length (filter (\<lambda>a. take 3 (USE_CODE a) \<notin> dom (load_classification_codes read_csv))
                  assessment_layer) \<and>
      (\<forall>t \<in> set (properties res).
         length (current_code t) \<le> 3 \<and>
         current_code t \<notin> dom (load_classification_codes read_csv) \<and>
         (\<exists>a \<in> set assessment_layer. current_code t = take 3 (USE_CODE a) \<and> loc_id t = LOC_ID a)))"
proof (intro conjI impI ballI)
  fix r assume "r \<in> set (build_all_parcels parcels assessment_df)"
  from build_all_parcels_row[OF this] obtain p a where
    pa: "a \<in> set assessment_df" "LOC_ID a = LOC_ID p" "r = (p, a\<lparr>USE_CODE := take 3 (USE_CODE a)\<rparr>)"
    by blast
  show "length (USE_CODE (snd r)) \<le> 3" by (simp add: pa(3))
  show "take 3 (USE_CODE (snd r)) = USE_CODE (snd r)" by (simp add: pa(3))
  show "\<exists>a \<in> set assessment_df. LOC_ID a = LOC_ID (fst r) \<and> USE_CODE (snd r) = take 3 (USE_CODE a)"
    using pa by (intro bexI[of _ a]) simp_all
next
  fix r
  assume n: "property_neighbors G (build_all_parcels parcels assessment_df) loc = Some nearby"
    and r: "r \<in> set (nearby_valid_codes valid_codes nearby)"
  from r have "r \<in> set nearby" and v: "USE_CODE (snd r) \<in> valid_codes"
    by (simp_all add: nearby_valid_codes_def)
  with property_neighbors_subset[OF n] have "r \<in> set (build_all_parcels parcels assessment_df)"
    by blast
  from build_all_parcels_row[OF this] show "length (USE_CODE (snd r)) \<le> 3" by auto
  show "USE_CODE (snd r) \<in> valid_codes" by (rule v)
next
  assume "s \<in> set (fst (perform_spatial_analysis G parcels_gdf assessment_df sample
                     codes_dict valid_codes pr))"
  then show "\<exists>raw voters.
         property_neighbors G (merge_inner (parcel_rows parcels_gdf) assessment_df) (loc_id s)
           = Some raw \<and>
         voters = filter (\<lambda>r. take 3 (USE_CODE (snd r)) \<in> valid_codes) raw \<and>
         plurality_first (map (\<lambda>r. take 3 (USE_CODE (snd r))) voters) = Some (suggested_code s) \<and>
         confidence s =
           real (count_list (map (\<lambda>r. take 3 (USE_CODE (snd r))) voters) (suggested_code s))
           / real (length voters) \<and>
         length (suggested_code s) \<le> 3"
    by (rule emitted_vote_truncated)
next
  assume run: "fst (analyze_gdb G read_csv parcels_gdf assessment_layer pr) = Inr res"
  then have "assessment_layer \<noteq> []" using analyze_gdb_empty[of G read_csv parcels_gdf pr] by auto
  from analyze_gdb_result[OF this, of G read_csv parcels_gdf pr] run
  have data: "assessment_data res = truncate_use_codes assessment_layer"
    and nm: "non_matching_count res =
             length (filter (\<lambda>r. USE_CODE r \<notin> dom (load_classification_codes read_csv))
                       (truncate_use_codes assessment_layer))"
    and props: "properties res =
             (if non_matching_count res > 0
              then fst (perform_spatial_analysis G parcels_gdf (truncate_use_codes assessment_layer)
                          (filter (\<lambda>r. USE_CODE r \<notin> dom (load_classification_codes read_csv))
                             (truncate_use_codes assessment_layer))
                          (load_classification_codes read_csv)
                          (dom (load_classification_codes read_csv)) pr)
              else [])"
    by auto
  show "assessment_data res = truncate_use_codes assessment_layer" by (rule data)
  show "non_matching_count res =
        length (filter (\<lambda>a. take 3 (USE_CODE a) \<notin> dom (load_classification_codes read_csv))
                  assessment_layer)"
    by (simp add: nm truncate_use_codes_def filter_map comp_def)
  {
    fix a assume "a \<in> set (assessment_data res)"
    then show "length (USE_CODE a) \<le> 3" by (auto simp: data truncate_use_codes_def)
  }
  fix t assume "t \<in> set (properties res)"
  then have "t \<in> set (fst (perform_spatial_analysis G parcels_gdf (truncate_use_codes assessment_layer)
                          (filter (\<lambda>r. USE_CODE r \<notin> dom (load_classification_codes read_csv))
                             (truncate_use_codes assessment_layer))
                          (load_classification_codes read_csv)
                          (dom (load_classification_codes read_csv)) pr))"
    unfolding props by (simp split: if_splits)
  from emitted_origin[OF this] obtain row rs where
    row: "row \<in> set (filter (\<lambda>r. USE_CODE r \<notin> dom (load_classification_codes read_csv))
                             (truncate_use_codes assessment_layer))"
    and body: "property_body G (crs parcels_gdf)
         (build_all_parcels (parcel_rows parcels_gdf) (truncate_use_codes assessment_layer))
         (load_classification_codes read_csv) (dom (load_classification_codes read_csv)) rs row
       = Inr (Some t)"
    by blast
  from property_body_emits[OF body] have cur: "current_code t = USE_CODE row"
    and loc: "loc_id t = LOC_ID row" by blast+
  from row have inside: "row \<in> set (truncate_use_codes assessment_layer)"
    and out: "USE_CODE row \<notin> dom (load_classification_codes read_csv)"
    by simp_all
  from inside obtain a where a: "a \<in> set assessment_layer"
    "row = a\<lparr>USE_CODE := take 3 (USE_CODE a)\<rparr>"
    unfolding truncate_use_codes_def by auto
  show "length (current_code t) \<le> 3" by (simp add: cur a(2))
  show "current_code t \<notin> dom (load_classification_codes read_csv)" using out by (simp add: cur)
  show "\<exists>a \<in> set assessment_layer. current_code t = take 3 (USE_CODE a) \<and> loc_id t = LOC_ID a"
    using a by (intro bexI[of _ a]) (simp_all add: cur loc)
qed

lemma town_results_raw:
  "fst (perform_spatial_analysis disc_ops town_parcels town_assessment
     town_non_matching town_codes (dom town_codes) processing_progress) =
   [town_suggestion_P1, town_suggestion_P6]"
  by (simp add: perform_results town_defs)

lemma town_raw_neighbors_L6:
  "\<exists>raw. property_neighbors disc_ops (merge_inner (parcel_rows town_parcels) town_assessment) ''L6''
       = Some raw \<and>
     map (\<lambda>r. USE_CODE (snd r)) raw = [''9990'', ''1010'', ''102'', ''101'', ''101'', ''102''] \<and>
     map (\<lambda>r. USE_CODE (snd r)) (nearby_valid_codes (dom town_codes) raw)
       = [''102'', ''101'', ''101'', ''102''] \<and>
     map (\<lambda>r. take 3 (USE_CODE (snd r)))
       (filter (\<lambda>r. take 3 (USE_CODE (snd r)) \<in> dom town_codes) raw)
       = [''101'', ''102'', ''101'', ''101'', ''102'']"
  by (simp add: property_neighbors_def town_defs)

lemma town_run:
  "\<exists>res. fst (analyze_gdb disc_ops town_codes_csv town_parcels town_assessment processing_progress)
           = Inr res \<and>
     total_properties res = 10 \<and> non_matching_count res = 4 \<and> analyzed_count res = 2 \<and>
     properties res = [town_suggestion_P1, town_suggestion_P6] \<and>
     match_percentage res = 60"
proof -
  have "town_assessment \<noteq> []" by (simp add: town_assessment_def)
  from analyze_gdb_result[OF this, of disc_ops town_codes_csv town_parcels processing_progress]
  obtain res where res:
    "fst (analyze_gdb disc_ops town_codes_csv town_parcels town_assessment processing_progress) = Inr res"
    "total_properties res = length town_assessment"
    "non_matching_count res = length town_non_matching"
    "properties res =
       (if non_matching_count res > 0
        then fst (perform_spatial_analysis disc_ops town_parcels (truncate_use_codes town_assessment)
                    town_non_matching town_codes (dom town_codes) processing_progress)
        else [])"
    "analyzed_count res = length (properties res)"
    "match_percentage res =
       (real_of_int (int (total_properties res) - int (non_matching_count res))
          / real (total_properties res)) * 100"
    unfolding town_load town_partition by blast
  have t: "total_properties res = 10" by (simp add: res(2) town_assessment_def)
  have n: "non_matching_count res = 4" by (simp add: res(3) town_non_matching_def)
  have p: "properties res = [town_suggestion_P1, town_suggestion_P6]"
    by (simp add: res(4) n town_results)
  have a: "analyzed_count res = 2" by (simp add: res(5) p)
  have m: "match_percentage res = 60" by (simp add: res(6) t n)
  from res(1) t n a p m show ?thesis by blast
qed

theorem codes_truncated_before_comparison_witness:
  "(\<exists>r. r \<in> set (build_all_parcels (parcel_rows town_parcels) town_assessment) \<and>
        USE_CODE (snd r) = ''999'' \<and>
        length (USE_CODE (snd r)) \<le> 3 \<and>
        take 3 (USE_CODE (snd r)) = USE_CODE (snd r) \<and>
        (\<exists>a \<in> set town_assessment. LOC_ID a = LOC_ID (fst r) \<and> USE_CODE (snd r) = take 3 (USE_CODE a))) \<and>
   (\<exists>nearby r.
      property_neighbors disc_ops (build_all_parcels (parcel_rows town_parcels) town_assessment) ''L1''
        = Some nearby \<and>
      r \<in> set (nearby_valid_codes (dom town_codes) nearby) \<and>
      length (USE_CODE (snd r)) \<le> 3 \<and> USE_CODE (snd r) \<in> dom town_codes) \<and>
   town_suggestion_P6 \<in> set (fst (perform_spatial_analysis disc_ops town_parcels town_assessment
       town_non_matching town_codes (dom town_codes) processing_progress)) \<and>
   (\<exists>raw voters.
      property_neighbors disc_ops (merge_inner (parcel_rows town_parcels) town_assessment)
        (loc_id town_suggestion_P6) = Some raw \<and>
      map (\<lambda>r. USE_CODE (snd r)) raw = [''9990'', ''1010'', ''102'', ''101'', ''101'', ''102''] \<and>
      plurality_first (map (\<lambda>r. USE_CODE (snd r)) (nearby_valid_codes (dom town_codes) raw))
        = Some ''102'' \<and>
      voters = filter (\<lambda>r. take 3 (USE_CODE (snd r)) \<in> dom town_codes) raw \<and>
      map (\<lambda>r. take 3 (USE_CODE (snd r))) voters = [''101'', ''102'', ''101'', ''101'', ''102''] \<and>
      plurality_first (map (\<lambda>r. take 3 (USE_CODE (snd r))) voters)
        = Some (suggested_code town_suggestion_P6) \<and>
      suggested_code town_suggestion_P6 = ''101'' \<and>
      confidence town_suggestion_P6 =
        real (count_list (map (\<lambda>r. take 3 (USE_CODE (snd r))) voters)
                (suggested_code town_suggestion_P6))
        / real (length voters) \<and>
      length (suggested_code town_suggestion_P6) \<le> 3) \<and>
   (\<exists>res. fst (analyze_gdb disc_ops town_codes_csv town_parcels town_assessment processing_progress)
            = Inr res \<and>
      assessment_data res = truncate_use_codes town_assessment \<and>
      list_all (\<lambda>a. length (USE_CODE a) \<le> 3) (assessment_data res) \<and>
      non_matching_count res =
        length (filter (\<lambda>a. take 3 (USE_CODE a) \<notin> dom (load_classification_codes town_codes_csv))
                  town_assessment) \<and>
      town_suggestion_P1 \<in> set (properties res) \<and>
      length (current_code town_suggestion_P1) \<le> 3 \<and>
      current_code town_suggestion_P1 \<notin> dom (load_classification_codes town_codes_csv) \<and>
      (\<exists>a \<in> set town_assessment. current_code town_suggestion_P1 = take 3 (USE_CODE a) \<and>
         loc_id town_suggestion_P1 = LOC_ID a))"
proof -
  let ?all = "build_all_parcels (parcel_rows town_parcels) town_assessment"
  let ?r = "(\<lparr>LOC_ID = ''L1'', geometry = Some (Disc 230000 900000 10)\<rparr>, town_row ''L1'' ''P1'' ''999'')"
  let ?v = "(\<lparr>LOC_ID = ''L2'', geometry = Some (Disc 230050 900000 10)\<rparr>, town_row ''L2'' ''P2'' ''102'')"
  have r: "?r \<in> set ?all" and code: "USE_CODE (snd ?r) = ''999''"
    by (simp_all add: town_defs)
  obtain nearby where n: "property_neighbors disc_ops ?all ''L1'' = Some nearby"
    and v: "?v \<in> set (nearby_valid_codes (dom town_codes) nearby)"
    by (simp add: property_neighbors_def town_defs)
  obtain res where run:
    "fst (analyze_gdb disc_ops town_codes_csv town_parcels town_assessment processing_progress) = Inr res"
    and props: "properties res = [town_suggestion_P1, town_suggestion_P6]"
    using town_run by blast
  have P6: "town_suggestion_P6 \<in> set (fst (perform_spatial_analysis disc_ops town_parcels
       town_assessment town_non_matching town_codes (dom town_codes) processing_progress))"
    by (simp add: town_results_raw)
  have P1: "town_suggestion_P1 \<in> set (properties res)" by (simp add: props)
  note inst = codes_truncated_before_comparison[where parcels = "parcel_rows town_parcels"
      and assessment_df = town_assessment and G = disc_ops and loc = "''L1''" and nearby = nearby
      and valid_codes = "dom town_codes" and s = town_suggestion_P6 and parcels_gdf = town_parcels
      and sample = town_non_matching and codes_dict = town_codes and pr = processing_progress
      and read_csv = town_codes_csv and assessment_layer = town_assessment and res = res]
  from inst r have one: "length (USE_CODE (snd ?r)) \<le> 3 \<and>
      take 3 (USE_CODE (snd ?r)) = USE_CODE (snd ?r) \<and>
      (\<exists>a \<in> set town_assessment. LOC_ID a = LOC_ID (fst ?r) \<and> USE_CODE (snd ?r) = take 3 (USE_CODE a))"
    by blast
  from inst n v have two: "length (USE_CODE (snd ?v)) \<le> 3 \<and> USE_CODE (snd ?v) \<in> dom town_codes"
    by blast
  from inst[THEN conjunct2, THEN conjunct2, THEN conjunct1, THEN mp, OF P6]
  obtain raw voters where
    raw: "property_neighbors disc_ops (merge_inner (parcel_rows town_parcels) town_assessment)
        (loc_id town_suggestion_P6) = Some raw"
    and voters: "voters = filter (\<lambda>r. take 3 (USE_CODE (snd r)) \<in> dom town_codes) raw"
    and plur: "plurality_first (map (\<lambda>r. take 3 (USE_CODE (snd r))) voters)
        = Some (suggested_code town_suggestion_P6)"
    and conf: "confidence town_suggestion_P6 =
        real (count_list (map (\<lambda>r. take 3 (USE_CODE (snd r))) voters)
                (suggested_code town_suggestion_P6))
        / real (length voters)"
    and len: "length (suggested_code town_suggestion_P6) \<le> 3"
    by blast
  from town_raw_neighbors_L6 obtain raw' where facts:
    "property_neighbors disc_ops (merge_inner (parcel_rows town_parcels) town_assessment) ''L6''
       = Some raw' \<and>
     map (\<lambda>r. USE_CODE (snd r)) raw' = [''9990'', ''1010'', ''102'', ''101'', ''101'', ''102''] \<and>
     map (\<lambda>r. USE_CODE (snd r)) (nearby_valid_codes (dom town_codes) raw')
       = [''102'', ''101'', ''101'', ''102''] \<and>
     map (\<lambda>r. take 3 (USE_CODE (snd r)))
       (filter (\<lambda>r. take 3 (USE_CODE (snd r)) \<in> dom town_codes) raw')
       = [''101'', ''102'', ''101'', ''101'', ''102'']" ..
  have same: "raw' = raw" using facts raw by (simp add: town_suggestion_P6_def)
  note rawcodes = facts[THEN conjunct2, THEN conjunct1, unfolded same]
  note rawvalid = facts[THEN conjunct2, THEN conjunct2, THEN conjunct1, unfolded same]
  note cut = facts[THEN conjunct2, THEN conjunct2, THEN conjunct2, unfolded same voters[symmetric]]
  have untruncated: "plurality_first (map (\<lambda>r. USE_CODE (snd r)) (nearby_valid_codes (dom town_codes) raw))
        = Some ''102''"
    unfolding rawvalid by (simp add: plurality_first_def)
  have sug: "suggested_code town_suggestion_P6 = ''101''" by (simp add: town_suggestion_P6_def)
  from inst[THEN conjunct2, THEN conjunct2, THEN conjunct2, THEN mp, OF run]
  have three: "assessment_data res = truncate_use_codes town_assessment"
    "\<forall>a \<in> set (assessment_data res). length (USE_CODE a) \<le> 3"
    "non_matching_count res =
        length (filter (\<lambda>a. take 3 (USE_CODE a) \<notin> dom (load_classification_codes town_codes_csv))
                  town_assessment)"
    and four: "\<forall>t \<in> set (properties res).
         length (current_code t) \<le> 3 \<and>
         current_code t \<notin> dom (load_classification_codes town_codes_csv) \<and>
         (\<exists>a \<in> set town_assessment. current_code t = take 3 (USE_CODE a) \<and> loc_id t = LOC_ID a)"
    by blast+
  from four P1 have five: "length (current_code town_suggestion_P1) \<le> 3"
      "current_code town_suggestion_P1 \<notin> dom (load_classification_codes town_codes_csv)"
      "\<exists>a \<in> set town_assessment. current_code town_suggestion_P1 = take 3 (USE_CODE a) \<and>
         loc_id town_suggestion_P1 = LOC_ID a"
    by blast+
  show ?thesis
  proof (intro conjI)
    show "\<exists>r. r \<in> set ?all \<and> USE_CODE (snd r) = ''999'' \<and> length (USE_CODE (snd r)) \<le> 3 \<and>
        take 3 (USE_CODE (snd r)) = USE_CODE (snd r) \<and>
        (\<exists>a \<in> set town_assessment. LOC_ID a = LOC_ID (fst r) \<and> USE_CODE (snd r) = take 3 (USE_CODE a))"
      using r code one by (intro exI[of _ ?r] conjI) blast+
    show "\<exists>nearby r. property_neighbors disc_ops ?all ''L1'' = Some nearby \<and>
      r \<in> set (nearby_valid_codes (dom town_codes) nearby) \<and>
      length (USE_CODE (snd r)) \<le> 3 \<and> USE_CODE (snd r) \<in> dom town_codes"
      using n v two by (intro exI[of _ nearby] exI[of _ ?v] conjI) blast+
    show "town_suggestion_P6 \<in> set (fst (perform_spatial_analysis disc_ops town_parcels
       town_assessment town_non_matching town_codes (dom town_codes) processing_progress))"
      by (rule P6)
    show "\<exists>raw voters.
      property_neighbors disc_ops (merge_inner (parcel_rows town_parcels) town_assessment)
        (loc_id town_suggestion_P6) = Some raw \<and>
      map (\<lambda>r. USE_CODE (snd r)) raw = [''9990'', ''1010'', ''102'', ''101'', ''101'', ''102''] \<and>
      plurality_first (map (\<lambda>r. USE_CODE (snd r)) (nearby_valid_codes (dom town_codes) raw))
        = Some ''102'' \<and>
      voters = filter (\<lambda>r. take 3 (USE_CODE (snd r)) \<in> dom town_codes) raw \<and>
      map (\<lambda>r. take 3 (USE_CODE (snd r))) voters = [''101'', ''102'', ''101'', ''101'', ''102''] \<and>
      plurality_first (map (\<lambda>r. take 3 (USE_CODE (snd r))) voters)
        = Some (suggested_code town_suggestion_P6) \<and>
      suggested_code town_suggestion_P6 = ''101'' \<and>
      confidence town_suggestion_P6 =
        real (count_list (map (\<lambda>r. take 3 (USE_CODE (snd r))) voters)
                (suggested_code town_suggestion_P6))
        / real (length voters) \<and>
      length (suggested_code town_suggestion_P6) \<le> 3"
      by (intro exI[of _ raw] exI[of _ voters] conjI raw rawcodes untruncated voters cut plur sug
          conf len)
    show "\<exists>res. fst (analyze_gdb disc_ops town_codes_csv town_parcels town_assessment processing_progress)
            = Inr res \<and>
      assessment_data res = truncate_use_codes town_assessment \<and>
      list_all (\<lambda>a. length (USE_CODE a) \<le> 3) (assessment_data res) \<and>
      non_matching_count res =
        length (filter (\<lambda>a. take 3 (USE_CODE a) \<notin> dom (load_classification_codes town_codes_csv))
                  town_assessment) \<and>
      town_suggestion_P1 \<in> set (properties res) \<and>
      length (current_code town_suggestion_P1) \<le> 3 \<and>
      current_code town_suggestion_P1 \<notin> dom (load_classification_codes town_codes_csv) \<and>
      (\<exists>a \<in> set town_assessment. current_code town_suggestion_P1 = take 3 (USE_CODE a) \<and>
         loc_id town_suggestion_P1 = LOC_ID a)"
      using run three P1 five by (intro exI[of _ res]) (simp add: list_all_iff)
  qed
qed

text \<open>
  C7. When reading the code table fails, or anything else in the loader raises, the
  loader returns the empty table. With an empty table every assessment row is
  non-matching, and a run over a layer that has rows returns a summary whose
  non-matching count is the total.
\<close>

theorem empty_table_all_non_matching:
  "load_classification_codes (Inl e) = Map.empty \<and>
   (load_codes_body read_csv = Inl e' \<longrightarrow> load_classification_codes read_csv = Map.empty) \<and>
   (load_classification_codes read_csv = Map.empty \<longrightarrow>
      filter (\<lambda>r. USE_CODE r \<notin> dom (load_classification_codes read_csv))
        (truncate_use_codes assessment_layer) = truncate_use_codes assessment_layer \<and>
      (assessment_layer \<noteq> [] \<longrightarrow>
         (\<exists>res. fst (analyze_gdb G read_csv parcels_gdf assessment_layer pr) = Inr res \<and>
            total_properties res = length assessment_layer \<and>
            non_matching_count res = total_properties res)))"
proof (intro conjI impI)
  show "load_classification_codes (Inl e) = Map.empty"
    by (simp add: load_classification_codes_def load_codes_body_def)
next
  assume "load_codes_body read_csv = Inl e'"
  then show "load_classification_codes read_csv = Map.empty"
    by (simp add: load_classification_codes_def)
next
  assume empty: "load_classification_codes read_csv = Map.empty"
  then show all: "filter (\<lambda>r. USE_CODE r \<notin> dom (load_classification_codes read_csv))
        (truncate_use_codes assessment_layer) = truncate_use_codes assessment_layer"
    by simp
  assume "assessment_layer \<noteq> []"
  from analyze_gdb_result[OF this, of G read_csv parcels_gdf pr] obtain res where
    "fst (analyze_gdb G read_csv parcels_gdf assessment_layer pr) = Inr res"
    "total_properties res = length assessment_layer"
    "non_matching_count res =
       length (filter (\<lambda>r. USE_CODE r \<notin> dom (load_classification_codes read_csv))
                 (truncate_use_codes assessment_layer))"
    by blast
  then show "\<exists>res. fst (analyze_gdb G read_csv parcels_gdf assessment_layer pr) = Inr res \<and>
            total_properties res = length assessment_layer \<and>
            non_matching_count res = total_properties res"
    unfolding all by (intro exI[of _ res]) (simp add: truncate_use_codes_def)
qed

theorem empty_table_all_non_matching_witness:
  "load_classification_codes (Inl FileNotFoundError) = Map.empty \<and>
   load_codes_body (Inr [(''Code'', [''101''])]) = Inl KeyError \<and>
   load_classification_codes (Inr [(''Code'', [''101''])]) = Map.empty \<and>
   filter (\<lambda>r. USE_CODE r \<notin> dom (load_classification_codes (Inl FileNotFoundError)))
     (truncate_use_codes town_assessment) = truncate_use_codes town_assessment \<and>
   town_assessment \<noteq> [] \<and>
   (\<exists>res. fst (analyze_gdb disc_ops (Inl FileNotFoundError) town_parcels town_assessment
                  processing_progress) = Inr res \<and>
      total_properties res = length town_assessment \<and>
      non_matching_count res = total_properties res)"
proof -
  have body: "load_codes_body (Inr [(''Code'', [''101''])]) = Inl KeyError"
    by (simp add: load_codes_body_def code_columns_def frame_column_def)
  have rows: "town_assessment \<noteq> []" by (simp add: town_assessment_def)
  note a = empty_table_all_non_matching[of FileNotFoundError "Inr [(''Code'', [''101''])]" KeyError
      town_assessment disc_ops town_parcels processing_progress]
  note b = empty_table_all_non_matching[of FileNotFoundError "Inl FileNotFoundError" KeyError
      town_assessment disc_ops town_parcels processing_progress]
  from a body have one: "load_classification_codes (Inr [(''Code'', [''101''])]) = Map.empty"
    by blast
  from b have empty: "load_classification_codes (Inl FileNotFoundError) = Map.empty"
    by blast
  from b empty rows show ?thesis using body one by blast
qed

text \<open>
  C3. Line 150 computes the percentage as
  \<^verbatim>\<open>((total_properties - non_matching_count) / total_properties) * 100\<close> with no guard.
  For an assessment layer without rows both counts are zero, the division raises
  \<^verbatim>\<open>ZeroDivisionError\<close>, and \<^verbatim>\<open>analyze_gdb\<close> raises it again (lines 154-157): the run
  fails instead of reporting a percentage. For a layer with rows the run returns the
  percentage \<open>100 (total - non_matching) / total\<close>.
\<close>

theorem match_percentage_divides_by_total:
  "fst (analyze_gdb G read_csv parcels_gdf [] pr) = Inl ZeroDivisionError \<and>
   (assessment_layer \<noteq> [] \<longrightarrow>
      (\<exists>res. fst (analyze_gdb G read_csv parcels_gdf assessment_layer pr) = Inr res \<and>
         total_properties res = length assessment_layer \<and>
         non_matching_count res \<le> total_properties res \<and>
         match_percentage res =
           100 * (real (total_properties res) - real (non_matching_count res))
             / real (total_properties res)))"
proof (intro conjI impI)
  show "fst (analyze_gdb G read_csv parcels_gdf [] pr) = Inl ZeroDivisionError"
    by (rule analyze_gdb_empty)
next
  assume "assessment_layer \<noteq> []"
  from analyze_gdb_result[OF this, of G read_csv parcels_gdf pr] obtain res where res:
    "fst (analyze_gdb G read_csv parcels_gdf assessment_layer pr) = Inr res"
    "total_properties res = length assessment_layer"
    "non_matching_count res =
       length (filter (\<lambda>r. USE_CODE r \<notin> dom (load_classification_codes read_csv))
                 (truncate_use_codes assessment_layer))"
    "match_percentage res =
       (real_of_int (int (total_properties res) - int (non_matching_count res))
          / real (total_properties res)) * 100"
    by blast
  have "non_matching_count res \<le> length (truncate_use_codes assessment_layer)"
    unfolding res(3) by (rule length_filter_le)
  then have le: "non_matching_count res \<le> total_properties res"
    by (simp add: res(2) truncate_use_codes_def)
  have "match_percentage res =
           100 * (real (total_properties res) - real (non_matching_count res))
             / real (total_properties res)"
    by (simp add: res(4))
  with res(1,2) le show "\<exists>res. fst (analyze_gdb G read_csv parcels_gdf assessment_layer pr) = Inr res \<and>
         total_properties res = length assessment_layer \<and>
         non_matching_count res \<le> total_properties res \<and>
         match_percentage res =
           100 * (real (total_properties res) - real (non_matching_count res))
             / real (total_properties res)"
    by (intro exI[of _ res]) simp
qed

theorem match_percentage_divides_by_total_witness:
  "fst (analyze_gdb disc_ops town_codes_csv town_parcels [] processing_progress)
     = Inl ZeroDivisionError \<and>
   town_assessment \<noteq> [] \<and>
   (\<exists>res. fst (analyze_gdb disc_ops town_codes_csv town_parcels town_assessment processing_progress)
            = Inr res \<and>
      total_properties res = length town_assessment \<and>
      non_matching_count res \<le> total_properties res \<and>
      match_percentage res =
        100 * (real (total_properties res) - real (non_matching_count res))
          / real (total_properties res))"
proof -
  have rows: "town_assessment \<noteq> []" by (simp add: town_assessment_def)
  note inst = match_percentage_divides_by_total[of disc_ops town_codes_csv town_parcels
      processing_progress town_assessment]
  from inst rows show ?thesis by blast
qed

section \<open>Lemmas: coordinates\<close>

lemma in_massachusetts_iff:
  "in_massachusetts la lo \<longleftrightarrow>
   (\<exists>a b. la = Fin a \<and> lo = Fin b \<and> 41 \<le> a \<and> a \<le> 43 \<and> - 74 \<le> b \<and> b \<le> - 69)"
  by (cases la; cases lo) (simp_all add: in_massachusetts_def)

lemma property_body_after_centroid:
  assumes "find_property_geom all_parcels (LOC_ID row) = Some pg" "geometry (fst pg) = Some g"
    "centroid_xy G g = Some (x, y)"
  shows "property_body G c all_parcels codes_dict valid_codes rs row =
     (case normalize_centroid G c x y of
        None \<Rightarrow> Inr None
      | Some (latitude, longitude) \<Rightarrow>
          if \<not> in_massachusetts latitude longitude then Inr None
          else property_body G c all_parcels codes_dict valid_codes rs row)"
  using assms unfolding property_body_def
  by (simp split: option.split)

text \<open>
  C4. A centroid whose coordinates are both at most 1000 in magnitude is taken as it is,
  latitude \<open>y\<close> and longitude \<open>x\<close>, whatever the reprojection would give; a centroid with
  a coordinate above 1000 in magnitude is reprojected with the frame's CRS, and the
  property is skipped when there is none (or when the reprojection raises). A NaN
  coordinate is not above 1000, so it is taken as it is, and then fails the test of the
  box. A property whose centroid has no normalised position, or one outside
  \<open>41 \<le> lat \<le> 43\<close>, \<open>-74 \<le> lng \<le> -69\<close>, is skipped; an appended record carries the
  normalised position; and every emitted record lies in that box.
\<close>

theorem centroid_normalization:
  "(f_le (f_abs x) (Fin 1000) \<and> f_le (f_abs y) (Fin 1000) \<longrightarrow>
      normalize_centroid G c x y = Some (y, x)) \<and>
   (f_gt (f_abs x) (Fin 1000) \<or> f_gt (f_abs y) (Fin 1000) \<longrightarrow>
      normalize_centroid G c x y =
        (case c of
           None \<Rightarrow> None
         | Some src \<Rightarrow> (case to_crs G src (x, y) of None \<Rightarrow> None | Some (tx, ty) \<Rightarrow> Some (ty, tx)))) \<and>
   (find_property_geom all_parcels (LOC_ID row) = Some pg \<and> geometry (fst pg) = Some g \<and>
    centroid_xy G g = Some (x, y) \<longrightarrow>
      (normalize_centroid G c x y = None \<longrightarrow>
         property_body G c all_parcels codes_dict valid_codes rs row = Inr None) \<and>
      (\<forall>la lo. normalize_centroid G c x y = Some (la, lo) \<and> \<not> in_massachusetts la lo \<longrightarrow>
         property_body G c all_parcels codes_dict valid_codes rs row = Inr None) \<and>
      (\<forall>t. property_body G c all_parcels codes_dict valid_codes rs row = Inr (Some t) \<longrightarrow>
         normalize_centroid G c x y = Some (lat t, lng t))) \<and>
   (s \<in> set (fst (perform_spatial_analysis G parcels_gdf assessment_df sample
                     codes_dict valid_codes pr)) \<longrightarrow>
      in_massachusetts (lat s) (lng s) \<and>
      (\<exists>a b. lat s = Fin a \<and> lng s = Fin b \<and> 41 \<le> a \<and> a \<le> 43 \<and> - 74 \<le> b \<and> b \<le> - 69))"
proof (intro conjI impI allI)
  assume "f_le (f_abs x) (Fin 1000) \<and> f_le (f_abs y) (Fin 1000)"
  then show "normalize_centroid G c x y = Some (y, x)"
    by (simp add: normalize_centroid_def f_gt_def)
next
  assume "f_gt (f_abs x) (Fin 1000) \<or> f_gt (f_abs y) (Fin 1000)"
  then show "normalize_centroid G c x y =
        (case c of
           None \<Rightarrow> None
         | Some src \<Rightarrow> (case to_crs G src (x, y) of None \<Rightarrow> None | Some (tx, ty) \<Rightarrow> Some (ty, tx)))"
    by (simp add: normalize_centroid_def)
next
  assume at: "find_property_geom all_parcels (LOC_ID row) = Some pg \<and> geometry (fst pg) = Some g \<and>
    centroid_xy G g = Some (x, y)"
  note step = property_body_after_centroid[of all_parcels row pg g G x y c codes_dict valid_codes rs]
  {
    assume "normalize_centroid G c x y = None"
    with at step show "property_body G c all_parcels codes_dict valid_codes rs row = Inr None"
      by simp
  }
  {
    fix la lo assume "normalize_centroid G c x y = Some (la, lo) \<and> \<not> in_massachusetts la lo"
    with at step show "property_body G c all_parcels codes_dict valid_codes rs row = Inr None"
      by simp
  }
  {
    fix t assume "property_body G c all_parcels codes_dict valid_codes rs row = Inr (Some t)"
    from property_body_emits[OF this] at
    show "normalize_centroid G c x y = Some (lat t, lng t)" by auto
  }
next
  assume "s \<in> set (fst (perform_spatial_analysis G parcels_gdf assessment_df sample
                     codes_dict valid_codes pr))"
  from emitted_origin[OF this] obtain row' rs' where
    "property_body G (crs parcels_gdf) (build_all_parcels (parcel_rows parcels_gdf) assessment_df)
       codes_dict valid_codes rs' row' = Inr (Some s)"
    by blast
  from property_body_emits[OF this] show box: "in_massachusetts (lat s) (lng s)" by blast
  then show "\<exists>a b. lat s = Fin a \<and> lng s = Fin b \<and> 41 \<le> a \<and> a \<le> 43 \<and> - 74 \<le> b \<and> b \<le> - 69"
    by (simp only: in_massachusetts_iff)
qed

lemmas example_frame_defs =
  geographic_parcels_def far_east_parcels_def geographic_suggestion_def town_row_def
  property_body_def find_property_geom_def disc_ops_def normalize_centroid_def f_gt_def
  in_massachusetts_def nearby_parcels_def intersects_mask_def nearby_valid_codes_def Counter_def
  counter_incr_def most_common_1_def max_step_def town_codes_def str_nat.simps digit_char_values
  Let_def

theorem centroid_normalization_witness:
  "f_le (f_abs (Fin (- 71))) (Fin 1000) \<and> f_le (f_abs (Fin 42)) (Fin 1000) \<and>
   normalize_centroid disc_ops None (Fin (- 71)) (Fin 42) = Some (Fin 42, Fin (- 71)) \<and>
   f_gt (f_abs (Fin 230000)) (Fin 1000) \<and>
   normalize_centroid disc_ops None (Fin 230000) (Fin 900000) = None \<and>
   normalize_centroid disc_ops (Some ''EPSG:26986'') (Fin 230000) (Fin 900000)
     = Some (Fin 42, Fin (- 71)) \<and>
   property_body disc_ops None
     (build_all_parcels (parcel_rows town_parcels) (truncate_use_codes town_assessment))
     town_codes (dom town_codes) [] (town_row ''L1'' ''P1'' ''999'') = Inr None \<and>
   normalize_centroid disc_ops None (Fin (- 75)) (Fin 42) = Some (Fin 42, Fin (- 75)) \<and>
   \<not> in_massachusetts (Fin 42) (Fin (- 75)) \<and>
   property_body disc_ops None geographic_parcels town_codes (dom town_codes) []
     (town_row ''W1'' ''Q1'' ''999'') = Inr None \<and>
   normalize_centroid disc_ops (Some ''EPSG:26986'') (Fin 900000) (Fin 900000)
     = Some (Fin 42, Fin (- 643 / 10)) \<and>
   property_body disc_ops (Some ''EPSG:26986'') far_east_parcels town_codes (dom town_codes) []
     (town_row ''E1'' ''R1'' ''999'') = Inr None \<and>
   property_body disc_ops None geographic_parcels town_codes (dom town_codes) []
     (town_row ''G1'' ''Q2'' ''999'') = Inr (Some geographic_suggestion) \<and>
   normalize_centroid disc_ops None (Fin (- 71)) (Fin 42)
     = Some (lat geographic_suggestion, lng geographic_suggestion) \<and>
   town_suggestion_P1 \<in> set (fst (perform_spatial_analysis disc_ops town_parcels
       (truncate_use_codes town_assessment) town_non_matching town_codes (dom town_codes)
       processing_progress)) \<and>
   in_massachusetts (lat town_suggestion_P1) (lng town_suggestion_P1)"
proof -
  let ?town = "build_all_parcels (parcel_rows town_parcels) (truncate_use_codes town_assessment)"
  let ?L1 = "(\<lparr>LOC_ID = ''L1'', geometry = Some (Disc 230000 900000 10)\<rparr>, town_row ''L1'' ''P1'' ''999'')"
  let ?W1 = "(\<lparr>LOC_ID = ''W1'', geometry = Some (Disc (- 75) 42 (1 / 1000))\<rparr>, town_row ''W1'' ''Q1'' ''999'')"
  let ?G1 = "(\<lparr>LOC_ID = ''G1'', geometry = Some (Disc (- 71) 42 (1 / 1000))\<rparr>, town_row ''G1'' ''Q2'' ''999'')"
  let ?E1 = "(\<lparr>LOC_ID = ''E1'', geometry = Some (Disc 900000 900000 10)\<rparr>, town_row ''E1'' ''R1'' ''999'')"
  have small: "f_le (f_abs (Fin (- 71))) (Fin 1000) \<and> f_le (f_abs (Fin 42)) (Fin 1000)"
    and small': "f_le (f_abs (Fin (- 75))) (Fin 1000) \<and> f_le (f_abs (Fin 42)) (Fin 1000)"
    and large: "f_gt (f_abs (Fin 230000)) (Fin 1000)"
    and large': "f_gt (f_abs (Fin 900000)) (Fin 1000)"
    by (simp_all add: f_gt_def)
  have atL1: "find_property_geom ?town (LOC_ID (town_row ''L1'' ''P1'' ''999'')) = Some ?L1 \<and>
      geometry (fst ?L1) = Some (Disc 230000 900000 10) \<and>
      centroid_xy disc_ops (Disc 230000 900000 10) = Some (Fin 230000, Fin 900000)"
    by (simp add: town_defs)
  have atW1: "find_property_geom geographic_parcels (LOC_ID (town_row ''W1'' ''Q1'' ''999'')) = Some ?W1 \<and>
      geometry (fst ?W1) = Some (Disc (- 75) 42 (1 / 1000)) \<and>
      centroid_xy disc_ops (Disc (- 75) 42 (1 / 1000)) = Some (Fin (- 75), Fin 42)"
    by (simp add: example_frame_defs)
  have atG1: "find_property_geom geographic_parcels (LOC_ID (town_row ''G1'' ''Q2'' ''999'')) = Some ?G1 \<and>
      geometry (fst ?G1) = Some (Disc (- 71) 42 (1 / 1000)) \<and>
      centroid_xy disc_ops (Disc (- 71) 42 (1 / 1000)) = Some (Fin (- 71), Fin 42)"
    by (simp add: example_frame_defs)
  have atE1: "find_property_geom far_east_parcels (LOC_ID (town_row ''E1'' ''R1'' ''999'')) = Some ?E1 \<and>
      geometry (fst ?E1) = Some (Disc 900000 900000 10) \<and>
      centroid_xy disc_ops (Disc 900000 900000 10) = Some (Fin 900000, Fin 900000)"
    by (simp add: example_frame_defs)
  have emits: "property_body disc_ops None geographic_parcels town_codes (dom town_codes) []
     (town_row ''G1'' ''Q2'' ''999'') = Inr (Some geographic_suggestion)"
    by (simp add: example_frame_defs)
  have out_west: "\<not> in_massachusetts (Fin 42) (Fin (- 75))"
    and out_east: "\<not> in_massachusetts (Fin 42) (Fin (- 643 / 10))"
    by (simp_all add: in_massachusetts_def)
  note tL1 = centroid_normalization[of "Fin 230000" "Fin 900000" disc_ops None ?town
      "town_row ''L1'' ''P1'' ''999''" ?L1 "Disc 230000 900000 10" town_codes "dom town_codes" "[]"
      town_suggestion_P1 town_parcels "truncate_use_codes town_assessment" town_non_matching
      processing_progress]
  note tL1' = centroid_normalization[of "Fin 230000" "Fin 900000" disc_ops "Some ''EPSG:26986''"
      ?town "town_row ''L1'' ''P1'' ''999''" ?L1 "Disc 230000 900000 10" town_codes "dom town_codes" "[]"
      town_suggestion_P1 town_parcels "truncate_use_codes town_assessment" town_non_matching
      processing_progress]
  note tW1 = centroid_normalization[of "Fin (- 75)" "Fin 42" disc_ops None geographic_parcels
      "town_row ''W1'' ''Q1'' ''999''" ?W1 "Disc (- 75) 42 (1 / 1000)" town_codes "dom town_codes" "[]"
      town_suggestion_P1 town_parcels "truncate_use_codes town_assessment" town_non_matching
      processing_progress]
  note tG1 = centroid_normalization[of "Fin (- 71)" "Fin 42" disc_ops None geographic_parcels
      "town_row ''G1'' ''Q2'' ''999''" ?G1 "Disc (- 71) 42 (1 / 1000)" town_codes "dom town_codes" "[]"
      town_suggestion_P1 town_parcels "truncate_use_codes town_assessment" town_non_matching
      processing_progress]
  note tE1 = centroid_normalization[of "Fin 900000" "Fin 900000" disc_ops "Some ''EPSG:26986''"
      far_east_parcels "town_row ''E1'' ''R1'' ''999''" ?E1 "Disc 900000 900000 10" town_codes
      "dom town_codes" "[]" town_suggestion_P1 town_parcels "truncate_use_codes town_assessment"
      town_non_matching processing_progress]
  have n1: "normalize_centroid disc_ops None (Fin (- 71)) (Fin 42) = Some (Fin 42, Fin (- 71))"
    using tG1[THEN conjunct1] small by blast
  have n2: "normalize_centroid disc_ops None (Fin 230000) (Fin 900000) = None"
    using tL1[THEN conjunct2, THEN conjunct1] large by simp
  have n3: "normalize_centroid disc_ops (Some ''EPSG:26986'') (Fin 230000) (Fin 900000)
     = Some (Fin 42, Fin (- 71))"
    using tL1'[THEN conjunct2, THEN conjunct1] large by (simp add: disc_ops_def)
  have n4: "normalize_centroid disc_ops None (Fin (- 75)) (Fin 42) = Some (Fin 42, Fin (- 75))"
    using tW1[THEN conjunct1] small' by blast
  have n5: "normalize_centroid disc_ops (Some ''EPSG:26986'') (Fin 900000) (Fin 900000)
     = Some (Fin 42, Fin (- 643 / 10))"
    using tE1[THEN conjunct2, THEN conjunct1] large' by (simp add: disc_ops_def)
  have s1: "property_body disc_ops None ?town town_codes (dom town_codes) []
      (town_row ''L1'' ''P1'' ''999'') = Inr None"
    using tL1[THEN conjunct2, THEN conjunct2, THEN conjunct1] atL1 n2 by blast
  have s2: "property_body disc_ops None geographic_parcels town_codes (dom town_codes) []
     (town_row ''W1'' ''Q1'' ''999'') = Inr None"
    using tW1[THEN conjunct2, THEN conjunct2, THEN conjunct1] atW1 n4 out_west by blast
  have s3: "property_body disc_ops (Some ''EPSG:26986'') far_east_parcels town_codes (dom town_codes) []
     (town_row ''E1'' ''R1'' ''999'') = Inr None"
    using tE1[THEN conjunct2, THEN conjunct2, THEN conjunct1] atE1 n5 out_east by blast
  have e1: "normalize_centroid disc_ops None (Fin (- 71)) (Fin 42)
     = Some (lat geographic_suggestion, lng geographic_suggestion)"
    using tG1[THEN conjunct2, THEN conjunct2, THEN conjunct1] atG1 emits by blast
  have box: "in_massachusetts (lat town_suggestion_P1) (lng town_suggestion_P1)"
    using tL1[THEN conjunct2, THEN conjunct2, THEN conjunct2] town_P1_emitted by blast
  from small large n1 n2 n3 s1 n4 out_west s2 n5 s3 emits e1 town_P1_emitted box
  show ?thesis by (intro conjI) (elim conjE, assumption)+
qed

section \<open>Lemmas: exceptions and the progress trace\<close>

lemma property_body_id_key:
  "property_body G c all_parcels codes_dict valid_codes rs row =
   map_sum id (map_option (\<lambda>s. s\<lparr>id_key := ''prop_'' @ str_nat (length rs)\<rparr>))
     (property_body G c all_parcels codes_dict valid_codes [] row)"
  unfolding property_body_def Let_def
  by (simp split: option.split sum.split list.split prod.split)

lemma property_body_raises_always:
  assumes "property_body G c all_parcels codes_dict valid_codes [] row = Inl e"
  shows "property_body G c all_parcels codes_dict valid_codes rs row = Inl e"
  by (subst property_body_id_key) (simp add: assms)

lemma foldl_results_skip:
  assumes "\<And>rs. body rs row = Inl e"
  shows "foldl (\<lambda>rs row. case body rs row of Inl e \<Rightarrow> rs | Inr None \<Rightarrow> rs | Inr (Some s) \<Rightarrow> rs @ [s])
           results (before @ row # after) =
         foldl (\<lambda>rs row. case body rs row of Inl e \<Rightarrow> rs | Inr None \<Rightarrow> rs | Inr (Some s) \<Rightarrow> rs @ [s])
           results (before @ after)"
  by (simp add: assms)

lemma analysis_loop_trace_length:
  "length (snd (analysis_loop body t n rows results pr)) = 2 * length rows"
  by (induction rows arbitrary: n results pr) (simp_all add: Let_def split_def)

lemma analysis_loop_trace_frame:
  "p \<in> set (snd (analysis_loop body t n rows results pr)) \<Longrightarrow>
   progress_status p = progress_status pr \<and> progress_total p = progress_total pr"
proof (induction rows arbitrary: n results pr)
  case Nil
  then show ?case by simp
next
  case (Cons row rows)
  let ?pr1 = "pr\<lparr>progress_current := n\<rparr>"
  let ?pr2 = "?pr1\<lparr>progress_message :=
                ''Analyzing property '' @ str_nat n @ '' of '' @ str_nat t\<rparr>"
  let ?results' = "case body results row of Inl e \<Rightarrow> results | Inr None \<Rightarrow> results
                   | Inr (Some s) \<Rightarrow> results @ [s]"
  from Cons.prems have "p = ?pr1 \<or> p = ?pr2 \<or>
      p \<in> set (snd (analysis_loop body t (n + 1) rows ?results' ?pr2))"
    by (simp add: Let_def split_def)
  then show ?case using Cons.IH[of "n + 1" ?results' ?pr2] by auto
qed

lemma analysis_loop_trace_last:
  "rows \<noteq> [] \<Longrightarrow>
   progress_current (last (snd (analysis_loop body t n rows results pr))) = n + length rows - 1 \<and>
   progress_message (last (snd (analysis_loop body t n rows results pr))) =
     ''Analyzing property '' @ str_nat (n + length rows - 1) @ '' of '' @ str_nat t"
proof (induction rows arbitrary: n results pr)
  case Nil
  then show ?case by simp
next
  case (Cons row rows)
  let ?pr1 = "pr\<lparr>progress_current := n\<rparr>"
  let ?pr2 = "?pr1\<lparr>progress_message :=
                ''Analyzing property '' @ str_nat n @ '' of '' @ str_nat t\<rparr>"
  let ?results' = "case body results row of Inl e \<Rightarrow> results | Inr None \<Rightarrow> results
                   | Inr (Some s) \<Rightarrow> results @ [s]"
  let ?rest = "snd (analysis_loop body t (n + 1) rows ?results' ?pr2)"
  have unfold: "snd (analysis_loop body t n (row # rows) results pr) = ?pr1 # ?pr2 # ?rest"
    by (simp add: Let_def split_def)
  show ?case
  proof (cases rows)
    case Nil
    then show ?thesis unfolding unfold by simp
  next
    case (Cons r rs)
    then have ne: "rows \<noteq> []" by simp
    have "length ?rest = 2 * length rows" by (rule analysis_loop_trace_length)
    then have "?rest \<noteq> []" using ne by auto
    then have "last (?pr1 # ?pr2 # ?rest) = last ?rest" by simp
    with Cons.IH[OF ne, of "n + 1" ?results' ?pr2] show ?thesis unfolding unfold by simp
  qed
qed

lemma perform_trace:
  assumes "debug_sample_coordinates (parcel_rows parcels_gdf) = Inr ()"
  shows "\<exists>steps done.
     snd (perform_spatial_analysis G parcels_gdf assessment_df sample codes_dict valid_codes pr) =
       pr\<lparr>progress_total := length sample\<rparr> # steps @
       [done, done\<lparr>progress_message :=
                  ''Analysis complete! Found '' @
                  str_nat (length (fst (perform_spatial_analysis G parcels_gdf assessment_df sample
                                          codes_dict valid_codes pr))) @
                  '' properties with spatial suggestions.''\<rparr>] \<and>
     steps \<noteq> [] \<and>
     (\<forall>p \<in> set steps. progress_status p = ''processing'' \<and> progress_total p = length sample) \<and>
     (sample \<noteq> [] \<longrightarrow> progress_current (last steps) = length sample) \<and>
     done = (last steps)\<lparr>progress_status := ''complete''\<rparr>"
proof -
  let ?body = "property_body G (crs parcels_gdf)
                 (build_all_parcels (parcel_rows parcels_gdf) assessment_df) codes_dict valid_codes"
  let ?pr2 = "pr\<lparr>progress_total := length sample, progress_status := ''processing''\<rparr>"
  let ?loop = "analysis_loop ?body (length sample) 1 sample [] ?pr2"
  let ?steps = "?pr2 # snd ?loop"
  let ?done = "(last ?steps)\<lparr>progress_status := ''complete''\<rparr>"
  have res: "fst (perform_spatial_analysis G parcels_gdf assessment_df sample codes_dict valid_codes pr)
               = fst ?loop"
    using assms by (simp add: perform_spatial_analysis_def Let_def split_def)
  have tr: "snd (perform_spatial_analysis G parcels_gdf assessment_df sample codes_dict valid_codes pr) =
       pr\<lparr>progress_total := length sample\<rparr> # ?steps @
       [?done, ?done\<lparr>progress_message :=
                  ''Analysis complete! Found '' @ str_nat (length (fst ?loop)) @
                  '' properties with spatial suggestions.''\<rparr>]"
    using assms by (simp add: perform_spatial_analysis_def Let_def split_def)
  have frame: "\<forall>p \<in> set ?steps. progress_status p = ''processing'' \<and> progress_total p = length sample"
    using analysis_loop_trace_frame[of _ ?body "length sample" 1 sample "[]" ?pr2] by auto
  have cur: "progress_current (last ?steps) = length sample" if "sample \<noteq> []"
  proof -
    have "length (snd ?loop) = 2 * length sample" by (rule analysis_loop_trace_length)
    then have "snd ?loop \<noteq> []" using that by auto
    then have "last ?steps = last (snd ?loop)" by simp
    with analysis_loop_trace_last[OF that, of ?body "length sample" 1 "[]" ?pr2] that
    show ?thesis by simp
  qed
  show ?thesis
    apply (rule exI[of _ ?steps], rule exI[of _ ?done])
    using tr frame cur unfolding res by simp
qed

lemma perform_skips_raising_row:
  assumes "property_body G (crs parcels_gdf) (build_all_parcels (parcel_rows parcels_gdf) assessment_df)
             codes_dict valid_codes [] row = Inl e"
  shows "fst (perform_spatial_analysis G parcels_gdf assessment_df (before @ row # after)
                codes_dict valid_codes pr) =
         fst (perform_spatial_analysis G parcels_gdf assessment_df (before @ after)
                codes_dict valid_codes pr')"
proof -
  let ?body = "property_body G (crs parcels_gdf)
                 (build_all_parcels (parcel_rows parcels_gdf) assessment_df) codes_dict valid_codes"
  have "\<And>rs. ?body rs row = Inl e" using assms by (rule property_body_raises_always)
  from foldl_results_skip[of ?body row e "[]" before after, OF this] show ?thesis
    by (simp only: perform_results)
qed

lemma foldl_results_records:
  assumes "\<And>rs r. body rs r =
             map_sum id (map_option (\<lambda>s. s\<lparr>id_key := label (length rs)\<rparr>)) (body [] r)"
  shows "map (\<lambda>s. s\<lparr>id_key := []\<rparr>)
           (foldl (\<lambda>rs row. case body rs row of Inl e \<Rightarrow> rs | Inr None \<Rightarrow> rs | Inr (Some s) \<Rightarrow> rs @ [s])
              results rows) =
         map (\<lambda>s. s\<lparr>id_key := []\<rparr>) results @
         concat (map (\<lambda>r. case body [] r of Inl e \<Rightarrow> [] | Inr None \<Rightarrow> []
                           | Inr (Some t) \<Rightarrow> [t\<lparr>id_key := []\<rparr>]) rows)"
proof (induction rows arbitrary: results)
  case Nil
  show ?case by simp
next
  case (Cons row rows)
  show ?case
  proof (cases "body [] row")
    case (Inl e)
    then have "body results row = Inl e" by (subst assms) simp
    then show ?thesis using Inl by (simp add: Cons.IH)
  next
    case (Inr outcome)
    show ?thesis
    proof (cases outcome)
      case None
      then have "body results row = Inr None" using Inr by (subst assms) simp
      then show ?thesis using Inr None by (simp add: Cons.IH)
    next
      case (Some t)
      then have "body results row = Inr (Some (t\<lparr>id_key := label (length results)\<rparr>))"
        using Inr by (subst assms) simp
      then show ?thesis using Inr Some by (simp add: Cons.IH)
    qed
  qed
qed

lemma perform_records:
  assumes "debug_sample_coordinates (parcel_rows parcels_gdf) = Inr ()"
  shows "map (\<lambda>s. s\<lparr>id_key := []\<rparr>)
           (fst (perform_spatial_analysis G parcels_gdf assessment_df sample codes_dict valid_codes pr)) =
         concat (map (\<lambda>r. case property_body G (crs parcels_gdf)
                                  (build_all_parcels (parcel_rows parcels_gdf) assessment_df)
                                  codes_dict valid_codes [] r of
                             Inl e \<Rightarrow> [] | Inr None \<Rightarrow> [] | Inr (Some t) \<Rightarrow> [t\<lparr>id_key := []\<rparr>])
                   sample)"
proof -
  let ?body = "property_body G (crs parcels_gdf)
                 (build_all_parcels (parcel_rows parcels_gdf) assessment_df) codes_dict valid_codes"
  have "\<And>rs r. ?body rs r =
          map_sum id (map_option (\<lambda>s. s\<lparr>id_key := ''prop_'' @ str_nat (length rs)\<rparr>)) (?body [] r)"
    by (rule property_body_id_key)
  from foldl_results_records[of ?body "\<lambda>n. ''prop_'' @ str_nat n" "[]" sample, OF this] assms
  show ?thesis by (simp add: perform_results)
qed

text \<open>
  C8. A property whose classification raises is skipped and the batch goes on: the
  records emitted for a batch that contains such a property are those emitted for the
  batch without it. When the analysis reaches its loop, the emitted records are, up to
  their \<^verbatim>\<open>id\<close>, exactly the records that the classification gives for the properties
  of the batch, in their order, a raising property giving none and stopping none after
  it; and the progress ends with every property counted and the status \<^verbatim>\<open>complete\<close>.
  Whatever the geometry library raises, a run over an assessment layer that has rows
  returns its summary, in which the analysed count is at most the non-matching count and
  the records are those of all non-matching properties.
\<close>

theorem property_exception_does_not_abort:
  "(property_body G (crs parcels_gdf) (build_all_parcels (parcel_rows parcels_gdf) assessment_df)
      codes_dict valid_codes [] row = Inl e \<longrightarrow>
      fst (perform_spatial_analysis G parcels_gdf assessment_df (before @ row # after)
             codes_dict valid_codes pr) =
      fst (perform_spatial_analysis G parcels_gdf assessment_df (before @ after)
             codes_dict valid_codes pr)) \<and>
   (debug_sample_coordinates (parcel_rows parcels_gdf) = Inr () \<longrightarrow>
      map (\<lambda>s. s\<lparr>id_key := []\<rparr>)
        (fst (perform_spatial_analysis G parcels_gdf assessment_df sample codes_dict valid_codes pr)) =
      concat (map (\<lambda>r. case property_body G (crs parcels_gdf)
                               (build_all_parcels (parcel_rows parcels_gdf) assessment_df)
                               codes_dict valid_codes [] r of
                          Inl e \<Rightarrow> [] | Inr None \<Rightarrow> [] | Inr (Some t) \<Rightarrow> [t\<lparr>id_key := []\<rparr>])
                sample) \<and>
      (sample \<noteq> [] \<longrightarrow>
         progress_current (final_progress pr
           (snd (perform_spatial_analysis G parcels_gdf assessment_df sample
                   codes_dict valid_codes pr))) = length sample) \<and>
      progress_status (final_progress pr
        (snd (perform_spatial_analysis G parcels_gdf assessment_df sample
                codes_dict valid_codes pr))) = ''complete'') \<and>
   (assessment_layer \<noteq> [] \<longrightarrow>
      (\<exists>res. fst (analyze_gdb G read_csv parcels_gdf assessment_layer pr) = Inr res \<and>
         success res \<and> analyzed_count res \<le> non_matching_count res \<and>
         analyzed_count res = length (properties res) \<and>
         (debug_sample_coordinates (parcel_rows parcels_gdf) = Inr () \<longrightarrow>
            map (\<lambda>s. s\<lparr>id_key := []\<rparr>) (properties res) =
            concat (map (\<lambda>r. case property_body G (crs parcels_gdf)
                                     (build_all_parcels (parcel_rows parcels_gdf)
                                        (truncate_use_codes assessment_layer))
                                     (load_classification_codes read_csv)
                                     (dom (load_classification_codes read_csv)) [] r of
                                Inl e \<Rightarrow> [] | Inr None \<Rightarrow> [] | Inr (Some t) \<Rightarrow> [t\<lparr>id_key := []\<rparr>])
                      (filter (\<lambda>r. USE_CODE r \<notin> dom (load_classification_codes read_csv))
                         (truncate_use_codes assessment_layer))))))"
proof (intro conjI impI)
  assume "property_body G (crs parcels_gdf) (build_all_parcels (parcel_rows parcels_gdf) assessment_df)
      codes_dict valid_codes [] row = Inl e"
  then show "fst (perform_spatial_analysis G parcels_gdf assessment_df (before @ row # after)
             codes_dict valid_codes pr) =
      fst (perform_spatial_analysis G parcels_gdf assessment_df (before @ after)
             codes_dict valid_codes pr)"
    by (rule perform_skips_raising_row)
next
  assume dbg: "debug_sample_coordinates (parcel_rows parcels_gdf) = Inr ()"
  show "map (\<lambda>s. s\<lparr>id_key := []\<rparr>)
        (fst (perform_spatial_analysis G parcels_gdf assessment_df sample codes_dict valid_codes pr)) =
      concat (map (\<lambda>r. case property_body G (crs parcels_gdf)
                               (build_all_parcels (parcel_rows parcels_gdf) assessment_df)
                               codes_dict valid_codes [] r of
                          Inl e \<Rightarrow> [] | Inr None \<Rightarrow> [] | Inr (Some t) \<Rightarrow> [t\<lparr>id_key := []\<rparr>])
                sample)"
    using dbg by (rule perform_records)
  let ?trace = "snd (perform_spatial_analysis G parcels_gdf assessment_df sample
                       codes_dict valid_codes pr)"
  from perform_trace[OF dbg, of G assessment_df sample codes_dict valid_codes pr]
  obtain steps "done" final where
    tr: "?trace = pr\<lparr>progress_total := length sample\<rparr> # steps @ [done, final]"
    and final: "final = done\<lparr>progress_message :=
                  ''Analysis complete! Found '' @
                  str_nat (length (fst (perform_spatial_analysis G parcels_gdf assessment_df sample
                                          codes_dict valid_codes pr))) @
                  '' properties with spatial suggestions.''\<rparr>"
    and cur: "sample \<noteq> [] \<longrightarrow> progress_current (last steps) = length sample"
    and fin: "done = (last steps)\<lparr>progress_status := ''complete''\<rparr>"
    by blast
  have last: "final_progress pr ?trace = final" by (simp add: final_progress_def tr)
  show "progress_status (final_progress pr ?trace) = ''complete''"
    unfolding last by (simp add: final fin)
  assume "sample \<noteq> []"
  then show "progress_current (final_progress pr ?trace) = length sample"
    unfolding last using cur by (simp add: final fin)
next
  assume "assessment_layer \<noteq> []"
  from analyze_gdb_result[OF this, of G read_csv parcels_gdf pr] obtain res where res:
    "fst (analyze_gdb G read_csv parcels_gdf assessment_layer pr) = Inr res" "success res"
    "non_matching_count res =
       length (filter (\<lambda>r. USE_CODE r \<notin> dom (load_classification_codes read_csv))
                 (truncate_use_codes assessment_layer))"
    "properties res =
       (if non_matching_count res > 0
        then fst (perform_spatial_analysis G parcels_gdf (truncate_use_codes assessment_layer)
                    (filter (\<lambda>r. USE_CODE r \<notin> dom (load_classification_codes read_csv))
                       (truncate_use_codes assessment_layer))
                    (load_classification_codes read_csv)
                    (dom (load_classification_codes read_csv)) pr)
        else [])"
    "analyzed_count res = length (properties res)"
    by blast
  let ?sample = "filter (\<lambda>r. USE_CODE r \<notin> dom (load_classification_codes read_csv))
                   (truncate_use_codes assessment_layer)"
  have le: "length (properties res) \<le> non_matching_count res"
    unfolding res(4) using perform_results_length[of G parcels_gdf "truncate_use_codes assessment_layer"
        ?sample "load_classification_codes read_csv" "dom (load_classification_codes read_csv)" pr]
    by (simp add: res(3))
  have recs: "map (\<lambda>s. s\<lparr>id_key := []\<rparr>) (properties res) =
            concat (map (\<lambda>r. case property_body G (crs parcels_gdf)
                                     (build_all_parcels (parcel_rows parcels_gdf)
                                        (truncate_use_codes assessment_layer))
                                     (load_classification_codes read_csv)
                                     (dom (load_classification_codes read_csv)) [] r of
                                Inl e \<Rightarrow> [] | Inr None \<Rightarrow> [] | Inr (Some t) \<Rightarrow> [t\<lparr>id_key := []\<rparr>])
                      ?sample)"
    if dbg: "debug_sample_coordinates (parcel_rows parcels_gdf) = Inr ()"
  proof (cases "?sample = []")
    case True
    then show ?thesis by (simp add: res(4) res(3))
  next
    case False
    then have "properties res =
        fst (perform_spatial_analysis G parcels_gdf (truncate_use_codes assessment_layer) ?sample
               (load_classification_codes read_csv) (dom (load_classification_codes read_csv)) pr)"
      by (simp add: res(4) res(3))
    then show ?thesis by (simp only: perform_records[OF dbg])
  qed
  show "\<exists>res. fst (analyze_gdb G read_csv parcels_gdf assessment_layer pr) = Inr res \<and>
         success res \<and> analyzed_count res \<le> non_matching_count res \<and>
         analyzed_count res = length (properties res) \<and>
         (debug_sample_coordinates (parcel_rows parcels_gdf) = Inr () \<longrightarrow>
            map (\<lambda>s. s\<lparr>id_key := []\<rparr>) (properties res) =
            concat (map (\<lambda>r. case property_body G (crs parcels_gdf)
                                     (build_all_parcels (parcel_rows parcels_gdf)
                                        (truncate_use_codes assessment_layer))
                                     (load_classification_codes read_csv)
                                     (dom (load_classification_codes read_csv)) [] r of
                                Inl e \<Rightarrow> [] | Inr None \<Rightarrow> [] | Inr (Some t) \<Rightarrow> [t\<lparr>id_key := []\<rparr>])
                      ?sample))"
    using res(1,2,5) le recs by (intro exI[of _ res]) simp
qed

lemma town_results_after_exception:
  "fst (perform_spatial_analysis disc_ops town_parcels (truncate_use_codes town_assessment)
          ([town_row ''L1'' ''P1'' ''999''] @ town_row ''L8'' ''P8'' ''997'' #
           [town_row ''L6'' ''P6'' ''998'', town_row ''L9'' ''P9'' ''996''])
          town_codes (dom town_codes) processing_progress) =
   [town_suggestion_P1, town_suggestion_P6]"
  by (simp add: perform_results town_defs)

theorem property_exception_does_not_abort_witness:
  "property_body disc_ops (crs town_parcels)
     (build_all_parcels (parcel_rows town_parcels) (truncate_use_codes town_assessment))
     town_codes (dom town_codes) [] (town_row ''L8'' ''P8'' ''997'') = Inl LibraryError \<and>
   fst (perform_spatial_analysis disc_ops town_parcels (truncate_use_codes town_assessment)
          ([town_row ''L1'' ''P1'' ''999''] @ town_row ''L8'' ''P8'' ''997'' #
           [town_row ''L6'' ''P6'' ''998'', town_row ''L9'' ''P9'' ''996''])
          town_codes (dom town_codes) processing_progress) =
   fst (perform_spatial_analysis disc_ops town_parcels (truncate_use_codes town_assessment)
          ([town_row ''L1'' ''P1'' ''999''] @
           [town_row ''L6'' ''P6'' ''998'', town_row ''L9'' ''P9'' ''996''])
          town_codes (dom town_codes) processing_progress) \<and>
   fst (perform_spatial_analysis disc_ops town_parcels (truncate_use_codes town_assessment)
          ([town_row ''L1'' ''P1'' ''999''] @ town_row ''L8'' ''P8'' ''997'' #
           [town_row ''L6'' ''P6'' ''998'', town_row ''L9'' ''P9'' ''996''])
          town_codes (dom town_codes) processing_progress) =
     [town_suggestion_P1, town_suggestion_P6] \<and>
   property_body disc_ops (crs town_parcels)
     (build_all_parcels (parcel_rows town_parcels) (truncate_use_codes town_assessment))
     town_codes (dom town_codes) [] (town_row ''L6'' ''P6'' ''998'')
     = Inr (Some (town_suggestion_P6\<lparr>id_key := ''prop_0''\<rparr>)) \<and>
   debug_sample_coordinates (parcel_rows town_parcels) = Inr () \<and>
   map (\<lambda>s. s\<lparr>id_key := []\<rparr>)
     (fst (perform_spatial_analysis disc_ops town_parcels (truncate_use_codes town_assessment)
          ([town_row ''L1'' ''P1'' ''999''] @ town_row ''L8'' ''P8'' ''997'' #
           [town_row ''L6'' ''P6'' ''998'', town_row ''L9'' ''P9'' ''996''])
          town_codes (dom town_codes) processing_progress)) =
   concat (map (\<lambda>r. case property_body disc_ops (crs town_parcels)
                            (build_all_parcels (parcel_rows town_parcels)
                               (truncate_use_codes town_assessment))
                            town_codes (dom town_codes) [] r of
                       Inl e \<Rightarrow> [] | Inr None \<Rightarrow> [] | Inr (Some t) \<Rightarrow> [t\<lparr>id_key := []\<rparr>])
             ([town_row ''L1'' ''P1'' ''999''] @ town_row ''L8'' ''P8'' ''997'' #
              [town_row ''L6'' ''P6'' ''998'', town_row ''L9'' ''P9'' ''996''])) \<and>
   progress_current (final_progress processing_progress
     (snd (perform_spatial_analysis disc_ops town_parcels (truncate_use_codes town_assessment)
          ([town_row ''L1'' ''P1'' ''999''] @ town_row ''L8'' ''P8'' ''997'' #
           [town_row ''L6'' ''P6'' ''998'', town_row ''L9'' ''P9'' ''996''])
          town_codes (dom town_codes) processing_progress))) = 4 \<and>
   progress_status (final_progress processing_progress
     (snd (perform_spatial_analysis disc_ops town_parcels (truncate_use_codes town_assessment)
          ([town_row ''L1'' ''P1'' ''999''] @ town_row ''L8'' ''P8'' ''997'' #
           [town_row ''L6'' ''P6'' ''998'', town_row ''L9'' ''P9'' ''996''])
          town_codes (dom town_codes) processing_progress))) = ''complete'' \<and>
   town_assessment \<noteq> [] \<and>
   (\<exists>res. fst (analyze_gdb disc_ops town_codes_csv town_parcels town_assessment processing_progress)
            = Inr res \<and>
      success res \<and> analyzed_count res \<le> non_matching_count res \<and>
      analyzed_count res = 2 \<and> non_matching_count res = 4 \<and>
      properties res = [town_suggestion_P1, town_suggestion_P6] \<and>
      map (\<lambda>s. s\<lparr>id_key := []\<rparr>) (properties res) =
      concat (map (\<lambda>r. case property_body disc_ops (crs town_parcels)
                               (build_all_parcels (parcel_rows town_parcels)
                                  (truncate_use_codes town_assessment))
                               (load_classification_codes town_codes_csv)
                               (dom (load_classification_codes town_codes_csv)) [] r of
                          Inl e \<Rightarrow> [] | Inr None \<Rightarrow> [] | Inr (Some t) \<Rightarrow> [t\<lparr>id_key := []\<rparr>])
                (filter (\<lambda>r. USE_CODE r \<notin> dom (load_classification_codes town_codes_csv))
                   (truncate_use_codes town_assessment))))"
proof -
  let ?sample = "[town_row ''L1'' ''P1'' ''999''] @ town_row ''L8'' ''P8'' ''997'' #
           [town_row ''L6'' ''P6'' ''998'', town_row ''L9'' ''P9'' ''996'']"
  have raises: "property_body disc_ops (crs town_parcels)
     (build_all_parcels (parcel_rows town_parcels) (truncate_use_codes town_assessment))
     town_codes (dom town_codes) [] (town_row ''L8'' ''P8'' ''997'') = Inl LibraryError"
    by (simp add: town_defs)
  have later: "property_body disc_ops (crs town_parcels)
     (build_all_parcels (parcel_rows town_parcels) (truncate_use_codes town_assessment))
     town_codes (dom town_codes) [] (town_row ''L6'' ''P6'' ''998'')
     = Inr (Some (town_suggestion_P6\<lparr>id_key := ''prop_0''\<rparr>))"
    by (simp add: town_defs)
  have dbg: "debug_sample_coordinates (parcel_rows town_parcels) = Inr ()"
    by (simp add: debug_sample_coordinates_def town_parcels_def)
  have rows: "town_assessment \<noteq> []" by (simp add: town_assessment_def)
  have some: "?sample \<noteq> []" by simp
  note inst = property_exception_does_not_abort[where G = disc_ops and parcels_gdf = town_parcels
      and assessment_df = "truncate_use_codes town_assessment" and codes_dict = town_codes
      and valid_codes = "dom town_codes" and row = "town_row ''L8'' ''P8'' ''997''"
      and e = LibraryError and before = "[town_row ''L1'' ''P1'' ''999'']"
      and after = "[town_row ''L6'' ''P6'' ''998'', town_row ''L9'' ''P9'' ''996'']"
      and sample = ?sample and pr = processing_progress and assessment_layer = town_assessment
      and read_csv = town_codes_csv]
  note one = inst[THEN conjunct1, THEN mp, OF raises]
  note two = inst[THEN conjunct2, THEN conjunct1, THEN mp, OF dbg]
  note recs = two[THEN conjunct1]
  note cur = two[THEN conjunct2, THEN conjunct1, THEN mp, OF some]
  note stat = two[THEN conjunct2, THEN conjunct2]
  have cur': "progress_current (final_progress processing_progress
     (snd (perform_spatial_analysis disc_ops town_parcels (truncate_use_codes town_assessment)
          ?sample town_codes (dom town_codes) processing_progress))) = 4"
    unfolding cur by simp
  from inst[THEN conjunct2, THEN conjunct2, THEN mp, OF rows] dbg obtain res where res:
    "fst (analyze_gdb disc_ops town_codes_csv town_parcels town_assessment processing_progress) = Inr res"
    "success res" "analyzed_count res \<le> non_matching_count res"
    "map (\<lambda>s. s\<lparr>id_key := []\<rparr>) (properties res) =
      concat (map (\<lambda>r. case property_body disc_ops (crs town_parcels)
                               (build_all_parcels (parcel_rows town_parcels)
                                  (truncate_use_codes town_assessment))
                               (load_classification_codes town_codes_csv)
                               (dom (load_classification_codes town_codes_csv)) [] r of
                          Inl e \<Rightarrow> [] | Inr None \<Rightarrow> [] | Inr (Some t) \<Rightarrow> [t\<lparr>id_key := []\<rparr>])
                (filter (\<lambda>r. USE_CODE r \<notin> dom (load_classification_codes town_codes_csv))
                   (truncate_use_codes town_assessment)))"
    by blast
  from town_run res(1) have counts: "analyzed_count res = 2" "non_matching_count res = 4"
    "properties res = [town_suggestion_P1, town_suggestion_P6]"
    by auto
  have run: "\<exists>res. fst (analyze_gdb disc_ops town_codes_csv town_parcels town_assessment
                           processing_progress) = Inr res \<and>
      success res \<and> analyzed_count res \<le> non_matching_count res \<and>
      analyzed_count res = 2 \<and> non_matching_count res = 4 \<and>
      properties res = [town_suggestion_P1, town_suggestion_P6] \<and>
      map (\<lambda>s. s\<lparr>id_key := []\<rparr>) (properties res) =
      concat (map (\<lambda>r. case property_body disc_ops (crs town_parcels)
                               (build_all_parcels (parcel_rows town_parcels)
                                  (truncate_use_codes town_assessment))
                               (load_classification_codes town_codes_csv)
                               (dom (load_classification_codes town_codes_csv)) [] r of
                          Inl e \<Rightarrow> [] | Inr None \<Rightarrow> [] | Inr (Some t) \<Rightarrow> [t\<lparr>id_key := []\<rparr>])
                (filter (\<lambda>r. USE_CODE r \<notin> dom (load_classification_codes town_codes_csv))
                   (truncate_use_codes town_assessment)))"
    by (intro exI[of _ res] conjI res counts)
  show ?thesis
    by (intro conjI raises one town_results_after_exception later dbg recs cur' stat rows run)
qed

lemma analyze_gdb_trace:
  "snd (analyze_gdb G read_csv parcels_gdf assessment_layer pr) =
   (if filter (\<lambda>r. USE_CODE r \<notin> dom (load_classification_codes read_csv))
         (truncate_use_codes assessment_layer) \<noteq> []
    then snd (perform_spatial_analysis G parcels_gdf (truncate_use_codes assessment_layer)
                (filter (\<lambda>r. USE_CODE r \<notin> dom (load_classification_codes read_csv))
                   (truncate_use_codes assessment_layer))
                (load_classification_codes read_csv)
                (dom (load_classification_codes read_csv)) pr)
    else [])"
  unfolding analyze_gdb_def Let_def by (simp add: split_def)

lemma analysis_loop_trace_exact:
  "snd (analysis_loop body t n rows results pr) =
   concat (map (\<lambda>i.
      [pr\<lparr>progress_current := i,
          progress_message := (if i = n then progress_message pr else analyzing_message (i - 1) t)\<rparr>,
       pr\<lparr>progress_current := i, progress_message := analyzing_message i t\<rparr>])
     [n ..< n + length rows])"
proof (induction rows arbitrary: n results pr)
  case Nil
  show ?case by simp
next
  case (Cons row rows)
  let ?pr1 = "pr\<lparr>progress_current := n\<rparr>"
  let ?pr2 = "?pr1\<lparr>progress_message :=
                ''Analyzing property '' @ str_nat n @ '' of '' @ str_nat t\<rparr>"
  let ?results' = "case body results row of Inl e \<Rightarrow> results | Inr None \<Rightarrow> results
                   | Inr (Some s) \<Rightarrow> results @ [s]"
  let ?f = "\<lambda>i.
      [pr\<lparr>progress_current := i,
          progress_message := (if i = n then progress_message pr else analyzing_message (i - 1) t)\<rparr>,
       pr\<lparr>progress_current := i, progress_message := analyzing_message i t\<rparr>]"
  let ?g = "\<lambda>i.
      [?pr2\<lparr>progress_current := i,
          progress_message := (if i = Suc n then progress_message ?pr2
                               else analyzing_message (i - 1) t)\<rparr>,
       ?pr2\<lparr>progress_current := i, progress_message := analyzing_message i t\<rparr>]"
  have unfold: "snd (analysis_loop body t n (row # rows) results pr) =
      ?pr1 # ?pr2 # snd (analysis_loop body t (Suc n) rows ?results' ?pr2)"
    by (simp add: Let_def split_def)
  have ih: "snd (analysis_loop body t (Suc n) rows ?results' ?pr2) =
      concat (map ?g [Suc n ..< Suc n + length rows])"
    by (rule Cons.IH)
  have same: "map ?g [Suc n ..< Suc n + length rows] = map ?f [Suc n ..< Suc n + length rows]"
    by (rule map_cong) (auto simp: analyzing_message_def)
  have head: "?f n = [?pr1, ?pr2]" by (simp add: analyzing_message_def)
  have "n < n + length (row # rows)" by simp
  then have "[n ..< n + length (row # rows)] = n # [Suc n ..< Suc n + length rows]"
    by (subst upt_rec) simp
  then have "concat (map ?f [n ..< n + length (row # rows)]) =
        ?pr1 # ?pr2 # concat (map ?f [Suc n ..< Suc n + length rows])"
    using head by simp
  then show ?case unfolding unfold ih same by simp
qed

lemma perform_trace_exact:
  assumes "debug_sample_coordinates (parcel_rows parcels_gdf) = Inr ()" and "sample \<noteq> []"
  shows "snd (perform_spatial_analysis G parcels_gdf assessment_df sample codes_dict valid_codes pr) =
         expected_progress_trace pr (length sample)
           (length (fst (perform_spatial_analysis G parcels_gdf assessment_df sample
                           codes_dict valid_codes pr)))"
proof -
  let ?n = "length sample"
  let ?body = "property_body G (crs parcels_gdf)
                 (build_all_parcels (parcel_rows parcels_gdf) assessment_df) codes_dict valid_codes"
  let ?pr2 = "pr\<lparr>progress_total := ?n, progress_status := ''processing''\<rparr>"
  let ?loop = "analysis_loop ?body ?n 1 sample [] ?pr2"
  let ?f = "\<lambda>i.
      [?pr2\<lparr>progress_current := i,
          progress_message := (if i = 1 then progress_message ?pr2 else analyzing_message (i - 1) ?n)\<rparr>,
       ?pr2\<lparr>progress_current := i, progress_message := analyzing_message i ?n\<rparr>]"
  let ?f' = "\<lambda>i.
      [pr\<lparr>progress_total := ?n, progress_status := ''processing'', progress_current := i,
          progress_message := (if i = 1 then progress_message pr else analyzing_message (i - 1) ?n)\<rparr>,
       pr\<lparr>progress_total := ?n, progress_status := ''processing'', progress_current := i,
          progress_message := analyzing_message i ?n\<rparr>]"
  let ?Q = "pr\<lparr>progress_total := ?n, progress_status := ''processing'', progress_current := ?n,
               progress_message := analyzing_message ?n ?n\<rparr>"
  have res: "fst (perform_spatial_analysis G parcels_gdf assessment_df sample codes_dict valid_codes pr)
               = fst ?loop"
    using assms(1) by (simp add: perform_spatial_analysis_def Let_def split_def)
  have same: "?f = ?f'" by (rule ext) simp
  have "snd ?loop = concat (map ?f [1 ..< 1 + ?n])"
    by (rule analysis_loop_trace_exact)
  then have loop: "snd ?loop = concat (map ?f' [1 ..< ?n + 1])"
    unfolding same by (simp only: add.commute)
  have "1 \<le> ?n" using assms(2) by (cases sample) simp_all
  then have "[1 ..< Suc ?n] = [1 ..< ?n] @ [?n]" by (rule upt_Suc_append)
  then have split: "[1 ..< ?n + 1] = [1 ..< ?n] @ [?n]" by simp
  obtain front p where parts: "snd ?loop = front @ [p, ?Q]"
    unfolding loop split by simp
  have last: "last (?pr2 # snd ?loop) = ?Q" unfolding parts by simp
  have "snd (perform_spatial_analysis G parcels_gdf assessment_df sample codes_dict valid_codes pr) =
       pr\<lparr>progress_total := ?n\<rparr> # ?pr2 # snd ?loop @
       [(last (?pr2 # snd ?loop))\<lparr>progress_status := ''complete''\<rparr>,
        (last (?pr2 # snd ?loop))\<lparr>progress_status := ''complete'',
           progress_message := ''Analysis complete! Found '' @ str_nat (length (fst ?loop)) @
                  '' properties with spatial suggestions.''\<rparr>]"
    using assms(1) by (simp add: perform_spatial_analysis_def Let_def split_def)
  then have "snd (perform_spatial_analysis G parcels_gdf assessment_df sample codes_dict valid_codes pr) =
       pr\<lparr>progress_total := ?n\<rparr> # ?pr2 # concat (map ?f' [1 ..< ?n + 1]) @
       [?Q\<lparr>progress_status := ''complete''\<rparr>,
        ?Q\<lparr>progress_status := ''complete'',
           progress_message := ''Analysis complete! Found '' @ str_nat (length (fst ?loop)) @
                  '' properties with spatial suggestions.''\<rparr>]"
    unfolding last unfolding loop .
  then show ?thesis
    unfolding res expected_progress_trace_def complete_message_def
    by (simp del: upt_Suc)
qed

lemma perform_trace_not_reached:
  assumes "debug_sample_coordinates (parcel_rows parcels_gdf) = Inl e"
  shows "snd (perform_spatial_analysis G parcels_gdf assessment_df sample codes_dict valid_codes pr) = []"
  using assms by (simp add: perform_spatial_analysis_def Let_def)

lemma concat_pairs_replicate:
  "concat (map (\<lambda>i. [a, a]) xs) = replicate (2 * length xs) a"
  by (induction xs) simp_all

lemma expected_progress_statuses:
  "map progress_status (expected_progress_trace pr n k) =
   progress_status pr # replicate (2 * n + 1) ''processing'' @ [''complete'', ''complete'']"
proof -
  let ?mid = "concat (map (\<lambda>i.
        [pr\<lparr>progress_total := n, progress_status := ''processing'', progress_current := i,
            progress_message := (if i = 1 then progress_message pr else analyzing_message (i - 1) n)\<rparr>,
         pr\<lparr>progress_total := n, progress_status := ''processing'', progress_current := i,
            progress_message := analyzing_message i n\<rparr>]) [1 ..< n + 1])"
  have "map progress_status ?mid = concat (map (\<lambda>i. [''processing'', ''processing'']) [1 ..< n + 1])"
    unfolding map_concat map_map comp_def by simp
  also have "\<dots> = replicate (2 * length [1 ..< n + 1]) ''processing''"
    by (rule concat_pairs_replicate)
  also have "\<dots> = replicate (2 * n) ''processing''" by simp
  finally have mid: "map progress_status ?mid = replicate (2 * n) ''processing''" .
  have "map progress_status (expected_progress_trace pr n k) =
        progress_status pr # ''processing'' # map progress_status ?mid @ [''complete'', ''complete'']"
    unfolding expected_progress_trace_def by simp
  then show ?thesis unfolding mid by simp
qed

lemma expected_progress_final:
  "final_progress pr (expected_progress_trace pr n k) =
   pr\<lparr>progress_total := n, progress_status := ''complete'', progress_current := n,
      progress_message := complete_message k\<rparr>"
  by (simp add: final_progress_def expected_progress_trace_def)

text \<open>
  C9, as the code has it. The progress is written only by the spatial analysis. In a run
  with at least one non-matching record whose spatial analysis reaches its loop, the
  writes are exactly those of the specification's trace for the number of non-matching
  records and the number of suggestions found: the total, the status \<^verbatim>\<open>processing\<close>,
  for each property in turn its count and its message, then the status \<^verbatim>\<open>complete\<close>
  and the closing message. So the status goes from its value at the start (\<^verbatim>\<open>idle\<close> in
  a fresh process) through \<^verbatim>\<open>processing\<close> to \<^verbatim>\<open>complete\<close>. A run without a
  non-matching record writes nothing.
\<close>

theorem progress_of_run_with_non_matching:
  "(filter (\<lambda>r. USE_CODE r \<notin> dom (load_classification_codes read_csv))
      (truncate_use_codes assessment_layer) \<noteq> [] \<and>
    debug_sample_coordinates (parcel_rows parcels_gdf) = Inr () \<longrightarrow>
      (\<exists>res. fst (analyze_gdb G read_csv parcels_gdf assessment_layer pr) = Inr res \<and>
         0 < non_matching_count res \<and>
         non_matching_count res =
           length (filter (\<lambda>r. USE_CODE r \<notin> dom (load_classification_codes read_csv))
                     (truncate_use_codes assessment_layer)) \<and>
         analyzed_count res = length (properties res) \<and>
         snd (analyze_gdb G read_csv parcels_gdf assessment_layer pr) =
           expected_progress_trace pr (non_matching_count res) (analyzed_count res) \<and>
         map progress_status (snd (analyze_gdb G read_csv parcels_gdf assessment_layer pr)) =
           progress_status pr # replicate (2 * non_matching_count res + 1) ''processing'' @
           [''complete'', ''complete''] \<and>
         final_progress pr (snd (analyze_gdb G read_csv parcels_gdf assessment_layer pr)) =
           pr\<lparr>progress_total := non_matching_count res, progress_status := ''complete'',
              progress_current := non_matching_count res,
              progress_message := complete_message (analyzed_count res)\<rparr>)) \<and>
   (filter (\<lambda>r. USE_CODE r \<notin> dom (load_classification_codes read_csv))
      (truncate_use_codes assessment_layer) = [] \<longrightarrow>
      snd (analyze_gdb G read_csv parcels_gdf assessment_layer pr) = [] \<and>
      final_progress pr (snd (analyze_gdb G read_csv parcels_gdf assessment_layer pr)) = pr)"
proof (intro conjI impI)
  let ?sample = "filter (\<lambda>r. USE_CODE r \<notin> dom (load_classification_codes read_csv))
                   (truncate_use_codes assessment_layer)"
  let ?run = "perform_spatial_analysis G parcels_gdf (truncate_use_codes assessment_layer) ?sample
                (load_classification_codes read_csv) (dom (load_classification_codes read_csv)) pr"
  assume "?sample \<noteq> [] \<and> debug_sample_coordinates (parcel_rows parcels_gdf) = Inr ()"
  then have some: "?sample \<noteq> []" and dbg: "debug_sample_coordinates (parcel_rows parcels_gdf) = Inr ()"
    by simp_all
  from some have "truncate_use_codes assessment_layer \<noteq> []" by auto
  then have "assessment_layer \<noteq> []" by (auto simp: truncate_use_codes_def)
  from analyze_gdb_result[OF this, of G read_csv parcels_gdf pr] obtain res where res:
    "fst (analyze_gdb G read_csv parcels_gdf assessment_layer pr) = Inr res"
    "non_matching_count res = length ?sample"
    "properties res = (if non_matching_count res > 0 then fst ?run else [])"
    "analyzed_count res = length (properties res)"
    by blast
  have pos: "0 < non_matching_count res" using some by (simp add: res(2))
  have props: "properties res = fst ?run" using pos by (simp add: res(3))
  have "snd (analyze_gdb G read_csv parcels_gdf assessment_layer pr) = snd ?run"
    by (simp add: analyze_gdb_trace some)
  also have "\<dots> = expected_progress_trace pr (length ?sample) (length (fst ?run))"
    using dbg some by (rule perform_trace_exact)
  finally have tr: "snd (analyze_gdb G read_csv parcels_gdf assessment_layer pr) =
      expected_progress_trace pr (non_matching_count res) (analyzed_count res)"
    by (simp add: res(2) res(4) props)
  show "\<exists>res. fst (analyze_gdb G read_csv parcels_gdf assessment_layer pr) = Inr res \<and>
         0 < non_matching_count res \<and>
         non_matching_count res = length ?sample \<and>
         analyzed_count res = length (properties res) \<and>
         snd (analyze_gdb G read_csv parcels_gdf assessment_layer pr) =
           expected_progress_trace pr (non_matching_count res) (analyzed_count res) \<and>
         map progress_status (snd (analyze_gdb G read_csv parcels_gdf assessment_layer pr)) =
           progress_status pr # replicate (2 * non_matching_count res + 1) ''processing'' @
           [''complete'', ''complete''] \<and>
         final_progress pr (snd (analyze_gdb G read_csv parcels_gdf assessment_layer pr)) =
           pr\<lparr>progress_total := non_matching_count res, progress_status := ''complete'',
              progress_current := non_matching_count res,
              progress_message := complete_message (analyzed_count res)\<rparr>"
    by (intro exI[of _ res] conjI res(1) pos res(2) res(4) tr)
       (simp_all only: tr expected_progress_statuses expected_progress_final)
next
  assume none: "filter (\<lambda>r. USE_CODE r \<notin> dom (load_classification_codes read_csv))
      (truncate_use_codes assessment_layer) = []"
  then show tr: "snd (analyze_gdb G read_csv parcels_gdf assessment_layer pr) = []"
    by (simp add: analyze_gdb_trace)
  show "final_progress pr (snd (analyze_gdb G read_csv parcels_gdf assessment_layer pr)) = pr"
    unfolding tr by (simp add: final_progress_def)
qed

lemma town_matching_partition:
  "filter (\<lambda>r. USE_CODE r \<notin> dom (load_classification_codes town_codes_csv))
     (truncate_use_codes town_matching_assessment) = []"
  by (simp add: town_load town_codes_def town_matching_assessment_def town_row_def
      truncate_use_codes_def)

theorem progress_of_run_with_non_matching_witness:
  "filter (\<lambda>r. USE_CODE r \<notin> dom (load_classification_codes town_codes_csv))
     (truncate_use_codes town_assessment) \<noteq> [] \<and>
   debug_sample_coordinates (parcel_rows town_parcels) = Inr () \<and>
   (\<exists>res. fst (analyze_gdb disc_ops town_codes_csv town_parcels town_assessment processing_progress)
            = Inr res \<and>
      non_matching_count res = 4 \<and> analyzed_count res = 2 \<and>
      snd (analyze_gdb disc_ops town_codes_csv town_parcels town_assessment processing_progress) =
        expected_progress_trace processing_progress 4 2 \<and>
      map progress_status
        (snd (analyze_gdb disc_ops town_codes_csv town_parcels town_assessment processing_progress)) =
        ''idle'' # replicate 9 ''processing'' @ [''complete'', ''complete''] \<and>
      final_progress processing_progress
        (snd (analyze_gdb disc_ops town_codes_csv town_parcels town_assessment processing_progress)) =
        \<lparr>progress_current = 4, progress_total = 4, progress_status = ''complete'',
         progress_message = complete_message 2\<rparr>) \<and>
   filter (\<lambda>r. USE_CODE r \<notin> dom (load_classification_codes town_codes_csv))
     (truncate_use_codes town_matching_assessment) = [] \<and>
   snd (analyze_gdb disc_ops town_codes_csv town_parcels town_matching_assessment
          processing_progress) = [] \<and>
   final_progress processing_progress
     (snd (analyze_gdb disc_ops town_codes_csv town_parcels town_matching_assessment
             processing_progress)) = processing_progress"
proof -
  have some: "filter (\<lambda>r. USE_CODE r \<notin> dom (load_classification_codes town_codes_csv))
     (truncate_use_codes town_assessment) \<noteq> []"
    by (simp add: town_load town_partition town_non_matching_def)
  have dbg: "debug_sample_coordinates (parcel_rows town_parcels) = Inr ()"
    by (simp add: debug_sample_coordinates_def town_parcels_def)
  note a = progress_of_run_with_non_matching[where read_csv = town_codes_csv
      and assessment_layer = town_assessment and parcels_gdf = town_parcels and G = disc_ops
      and pr = processing_progress]
  note b = progress_of_run_with_non_matching[where read_csv = town_codes_csv
      and assessment_layer = town_matching_assessment and parcels_gdf = town_parcels and G = disc_ops
      and pr = processing_progress]
  from a[THEN conjunct1, THEN mp, OF conjI[OF some dbg]] obtain res where all:
    "fst (analyze_gdb disc_ops town_codes_csv town_parcels town_assessment processing_progress) = Inr res \<and>
     0 < non_matching_count res \<and>
     non_matching_count res =
       length (filter (\<lambda>r. USE_CODE r \<notin> dom (load_classification_codes town_codes_csv))
                 (truncate_use_codes town_assessment)) \<and>
     analyzed_count res = length (properties res) \<and>
     snd (analyze_gdb disc_ops town_codes_csv town_parcels town_assessment processing_progress) =
       expected_progress_trace processing_progress (non_matching_count res) (analyzed_count res) \<and>
     map progress_status
       (snd (analyze_gdb disc_ops town_codes_csv town_parcels town_assessment processing_progress)) =
       progress_status processing_progress # replicate (2 * non_matching_count res + 1) ''processing'' @
       [''complete'', ''complete''] \<and>
     final_progress processing_progress
       (snd (analyze_gdb disc_ops town_codes_csv town_parcels town_assessment processing_progress)) =
       processing_progress\<lparr>progress_total := non_matching_count res, progress_status := ''complete'',
          progress_current := non_matching_count res,
          progress_message := complete_message (analyzed_count res)\<rparr>" ..
  note res = all[THEN conjunct1]
    all[THEN conjunct2, THEN conjunct2, THEN conjunct2, THEN conjunct2, THEN conjunct1]
    all[THEN conjunct2, THEN conjunct2, THEN conjunct2, THEN conjunct2, THEN conjunct2, THEN conjunct1]
    all[THEN conjunct2, THEN conjunct2, THEN conjunct2, THEN conjunct2, THEN conjunct2, THEN conjunct2]
  from town_run res(1) have counts: "non_matching_count res = 4" "analyzed_count res = 2" by auto
  have run: "\<exists>res. fst (analyze_gdb disc_ops town_codes_csv town_parcels town_assessment
                           processing_progress) = Inr res \<and>
      non_matching_count res = 4 \<and> analyzed_count res = 2 \<and>
      snd (analyze_gdb disc_ops town_codes_csv town_parcels town_assessment processing_progress) =
        expected_progress_trace processing_progress 4 2 \<and>
      map progress_status
        (snd (analyze_gdb disc_ops town_codes_csv town_parcels town_assessment processing_progress)) =
        ''idle'' # replicate 9 ''processing'' @ [''complete'', ''complete''] \<and>
      final_progress processing_progress
        (snd (analyze_gdb disc_ops town_codes_csv town_parcels town_assessment processing_progress)) =
        \<lparr>progress_current = 4, progress_total = 4, progress_status = ''complete'',
         progress_message = complete_message 2\<rparr>"
    using res counts by (intro exI[of _ res]) (simp add: processing_progress_def)
  note none = b[THEN conjunct2, THEN mp, OF town_matching_partition]
  show ?thesis
    by (intro conjI some dbg run town_matching_partition none[THEN conjunct1] none[THEN conjunct2])
qed

lemma town_first_missing_debug:
  "debug_sample_coordinates (parcel_rows town_parcels_first_missing) = Inl AttributeError"
  by (simp add: debug_sample_coordinates_def town_parcels_first_missing_def)

text \<open>
  C9, as the claim states it, fails in two runs of the example town. With every code
  of the layer in the table, \<^verbatim>\<open>analyze_gdb\<close> does not call the spatial analysis (line
  132): nothing is written to the progress and its status stays \<^verbatim>\<open>idle\<close>. With four
  non-matching records but a first parcel row without geometry, line 174 raises before
  the first write, the spatial analysis returns at line 305, and again nothing is written.
\<close>

theorem progress_untouched_without_non_matching:
  "map_sum id non_matching_count
     (fst (analyze_gdb disc_ops town_codes_csv town_parcels town_matching_assessment
             processing_progress)) = Inr 0 \<and>
   snd (analyze_gdb disc_ops town_codes_csv town_parcels town_matching_assessment
          processing_progress) = [] \<and>
   progress_status (final_progress processing_progress
     (snd (analyze_gdb disc_ops town_codes_csv town_parcels town_matching_assessment
             processing_progress))) = ''idle'' \<and>
   progress_status (final_progress processing_progress
     (snd (analyze_gdb disc_ops town_codes_csv town_parcels town_matching_assessment
             processing_progress))) \<noteq> ''complete'' \<and>
   map_sum id non_matching_count
     (fst (analyze_gdb disc_ops town_codes_csv town_parcels_first_missing town_assessment
             processing_progress)) = Inr 4 \<and>
   snd (analyze_gdb disc_ops town_codes_csv town_parcels_first_missing town_assessment
          processing_progress) = [] \<and>
   progress_status (final_progress processing_progress
     (snd (analyze_gdb disc_ops town_codes_csv town_parcels_first_missing town_assessment
             processing_progress))) \<noteq> ''complete''"
proof -
  have tr: "snd (analyze_gdb disc_ops town_codes_csv town_parcels town_matching_assessment
          processing_progress) = []"
    by (simp only: analyze_gdb_trace town_matching_partition) simp
  have rows: "town_matching_assessment \<noteq> []" by (simp add: town_matching_assessment_def)
  from analyze_gdb_result[OF rows, of disc_ops town_codes_csv town_parcels processing_progress]
  obtain res where
    "fst (analyze_gdb disc_ops town_codes_csv town_parcels town_matching_assessment
            processing_progress) = Inr res"
    "non_matching_count res =
       length (filter (\<lambda>r. USE_CODE r \<notin> dom (load_classification_codes town_codes_csv))
                 (truncate_use_codes town_matching_assessment))"
    by blast
  then have zero: "map_sum id non_matching_count
     (fst (analyze_gdb disc_ops town_codes_csv town_parcels town_matching_assessment
             processing_progress)) = Inr 0"
    by (simp add: town_matching_partition)
  have tr': "snd (analyze_gdb disc_ops town_codes_csv town_parcels_first_missing town_assessment
          processing_progress) = []"
    by (simp add: analyze_gdb_trace perform_trace_not_reached[OF town_first_missing_debug])
  have rows': "town_assessment \<noteq> []" by (simp add: town_assessment_def)
  from analyze_gdb_result[OF rows', of disc_ops town_codes_csv town_parcels_first_missing
      processing_progress]
  obtain res' where
    "fst (analyze_gdb disc_ops town_codes_csv town_parcels_first_missing town_assessment
            processing_progress) = Inr res'"
    "non_matching_count res' =
       length (filter (\<lambda>r. USE_CODE r \<notin> dom (load_classification_codes town_codes_csv))
                 (truncate_use_codes town_assessment))"
    by blast
  then have four: "map_sum id non_matching_count
     (fst (analyze_gdb disc_ops town_codes_csv town_parcels_first_missing town_assessment
             processing_progress)) = Inr 4"
    by (simp add: town_load town_partition town_non_matching_def)
  show ?thesis
    unfolding tr tr' using zero four by (simp add: final_progress_def processing_progress_def)
qed

end
